theory Spec2Isabelle
  imports Main
begin

section \<open>Data model (src/models/models.go)\<close>

text \<open>
  \<^verbatim>\<open>LanguageType\<close> and \<^verbatim>\<open>SeverityLevel\<close> are Go string types: any string can be
  converted to them (the tool handler converts the caller's \<^verbatim>\<open>language\<close> argument, the
  JSON decoder stores whatever severity text the backend sent). They are therefore
  strings here, with the declared constants as named values. A Go string is a byte
  sequence, and so is a HOL \<^typ>\<open>string\<close>.
\<close>

type_synonym LanguageType = string
type_synonym SeverityLevel = string

definition CSHARP :: LanguageType where "CSHARP = ''csharp''"
definition REACT_TYPESCRIPT :: LanguageType where "REACT_TYPESCRIPT = ''react_typescript''"
definition REACT_JAVASCRIPT :: LanguageType where "REACT_JAVASCRIPT = ''react_javascript''"
definition JAVA :: LanguageType where "JAVA = ''java''"
definition UNKNOWN :: LanguageType where "UNKNOWN = ''unknown''"

definition LOW :: SeverityLevel where "LOW = ''LOW''"
definition MEDIUM :: SeverityLevel where "MEDIUM = ''MEDIUM''"
definition HIGH :: SeverityLevel where "HIGH = ''HIGH''"
definition CRITICAL :: SeverityLevel where "CRITICAL = ''CRITICAL''"

lemmas language_defs = CSHARP_def REACT_TYPESCRIPT_def REACT_JAVASCRIPT_def JAVA_def UNKNOWN_def
lemmas severity_defs = LOW_def MEDIUM_def HIGH_def CRITICAL_def

record SecurityIssue =
  ID :: string
  Title :: string
  Description :: string
  Severity :: SeverityLevel
  LineNumber :: int
  ColumnNumber :: int
  FilePath :: string
  CodeSnippet :: string
  Remediation :: string
  References :: "string list"

text \<open>
  The counters are Go \<^verbatim>\<open>int\<close>s. Each is incremented at most once per element of a
  slice, whose length is itself an \<^verbatim>\<open>int\<close>, so none can wrap; they are natural numbers
  here.
\<close>

record AnalysisMetadata =
  AnalysisTime :: string
  IssuesFound :: nat
  CriticalCount :: nat
  HighCount :: nat
  MediumCount :: nat
  LowCount :: nat
  DetectedLanguage :: LanguageType
  Errors :: "string list"

record AnalysisResult =
  Language :: LanguageType
  Issues :: "SecurityIssue list"
  Summary :: string
  AnalysisMetadata :: AnalysisMetadata


section \<open>Formatting verbs\<close>

text \<open>\<^verbatim>\<open>fmt.Sprintf("%d", n)\<close>: the decimal digits, with a minus sign for a negative value.\<close>

definition digit_char :: "nat \<Rightarrow> char" where
  "digit_char d = ''0123456789'' ! d"

fun show_nat :: "nat \<Rightarrow> string" where
  "show_nat n = (if n < 10 then [digit_char n] else show_nat (n div 10) @ [digit_char (n mod 10)])"

declare show_nat.simps [simp del]

definition show_int :: "int \<Rightarrow> string" where
  "show_int i = (if i < 0 then CHR ''-'' # show_nat (nat (- i)) else show_nat (nat i))"

definition NL :: char where "NL = CHR 0x0A"

section \<open>Metadata and summary (src/analyzers/base\_analyzer.go)\<close>

text \<open>
  The \<^verbatim>\<open>switch issue.Severity\<close> of \<^verbatim>\<open>generateMetadata\<close> has four cases and no
  default: an issue whose severity is none of the four constants changes no counter.
\<close>

definition count_issue :: "AnalysisMetadata \<Rightarrow> SecurityIssue \<Rightarrow> AnalysisMetadata" where
  "count_issue metadata issue =
     (if Severity issue = CRITICAL then metadata\<lparr>CriticalCount := CriticalCount metadata + 1\<rparr>
      else if Severity issue = HIGH then metadata\<lparr>HighCount := HighCount metadata + 1\<rparr>
      else if Severity issue = MEDIUM then metadata\<lparr>MediumCount := MediumCount metadata + 1\<rparr>
      else if Severity issue = LOW then metadata\<lparr>LowCount := LowCount metadata + 1\<rparr>
      else metadata)"

definition generateMetadata :: "SecurityIssue list \<Rightarrow> LanguageType \<Rightarrow> string \<Rightarrow> AnalysisMetadata" where
  "generateMetadata issues language duration =
     foldl count_issue
       \<lparr>AnalysisTime = duration, IssuesFound = length issues,
        CriticalCount = 0, HighCount = 0, MediumCount = 0, LowCount = 0,
        DetectedLanguage = language, Errors = []\<rparr>
       issues"

definition count_severity :: "SeverityLevel \<Rightarrow> SecurityIssue list \<Rightarrow> nat" where
  "count_severity s issues = foldl (\<lambda>n issue. if Severity issue = s then n + 1 else n) 0 issues"

definition generateSummary :: "SecurityIssue list \<Rightarrow> string" where
  "generateSummary issues =
     (if length issues = 0 then ''No security issues detected.''
      else ''Found '' @ show_nat (length issues) @ '' security issue(s): ''
           @ show_nat (count_severity CRITICAL issues) @ '' critical, ''
           @ show_nat (count_severity HIGH issues) @ '' high, ''
           @ show_nat (count_severity MEDIUM issues) @ '' medium, ''
           @ show_nat (count_severity LOW issues) @ '' low.'')"

section \<open>Report formatter\<close>

definition writeIssue :: "SecurityIssue \<Rightarrow> string" where
  "writeIssue issue =
     ''### '' @ Title issue @ [NL, NL]
     @ ''**Severity**: '' @ Severity issue @ [NL, NL]
     @ ''**Description**: '' @ Description issue @ [NL, NL]
     @ (if LineNumber issue > 0
        then ''**Location**: Line '' @ show_int (LineNumber issue)
             @ (if ColumnNumber issue > 0 then '', Column '' @ show_int (ColumnNumber issue) else [])
             @ [NL, NL]
        else [])
     @ (if CodeSnippet issue \<noteq> []
        then ''**Code Snippet**:'' @ [NL] @ ''```'' @ [NL] @ CodeSnippet issue @ [NL] @ ''```'' @ [NL, NL]
        else [])
     @ (if Remediation issue \<noteq> [] then ''**Remediation**: '' @ Remediation issue @ [NL, NL] else [])
     @ (if length (References issue) > 0
        then ''**References**:'' @ [NL] @ concat (map (\<lambda>ref. ''- '' @ ref @ [NL]) (References issue)) @ [NL]
        else [])
     @ ''---'' @ [NL, NL]"

definition report_header :: "AnalysisResult \<Rightarrow> string" where
  "report_header result =
     ''# Security Analysis Report'' @ [NL, NL]
     @ ''**Language**: '' @ Language result @ [NL, NL]
     @ ''**Analysis Time**: '' @ AnalysisTime (AnalysisMetadata result) @ [NL, NL]
     @ ''## Summary'' @ [NL, NL] @ Summary result @ [NL, NL]"

definition write_section :: "string \<Rightarrow> SecurityIssue list \<Rightarrow> string" where
  "write_section heading issues =
     (if length issues > 0 then heading @ [NL, NL] @ concat (map writeIssue issues) else [])"

definition FormatAsMarkdown :: "AnalysisResult \<Rightarrow> string" where
  "FormatAsMarkdown result =
     (if length (Issues result) = 0
      then report_header result @ ''No security issues found.'' @ [NL]
      else
        let criticalIssues = filter (\<lambda>issue. Severity issue = CRITICAL) (Issues result);
            highIssues = filter (\<lambda>issue. Severity issue = HIGH) (Issues result);
            mediumIssues = filter (\<lambda>issue. Severity issue = MEDIUM) (Issues result);
            lowIssues = filter (\<lambda>issue. Severity issue = LOW) (Issues result)
        in report_header result
           @ write_section ''## Critical Issues'' criticalIssues
           @ write_section ''## High Severity Issues'' highIssues
           @ write_section ''## Medium Severity Issues'' mediumIssues
           @ write_section ''## Low Severity Issues'' lowIssues)"

section \<open>Regular expressions (Go's \<^verbatim>\<open>regexp\<close>, as used by the language detector)\<close>

text \<open>
  The detector only asks whether a pattern matches somewhere in the code
  (\<^verbatim>\<open>MatchString\<close>), so the patterns are embedded as regular expressions over bytes with
  a Brzozowski-derivative matcher. Every literal and every class bound of the patterns
  is ASCII, and an ASCII byte is always a rune of its own, so matching bytes and
  matching runes agree on them.
\<close>

datatype rx = Zero | Eps | Sym "char \<Rightarrow> bool" | Alt rx rx | Seq rx rx | Star rx

fun nullable :: "rx \<Rightarrow> bool" where
  "nullable Zero = False"
| "nullable Eps = True"
| "nullable (Sym p) = False"
| "nullable (Alt r s) = (nullable r \<or> nullable s)"
| "nullable (Seq r s) = (nullable r \<and> nullable s)"
| "nullable (Star r) = True"

fun deriv :: "char \<Rightarrow> rx \<Rightarrow> rx" where
  "deriv c Zero = Zero"
| "deriv c Eps = Zero"
| "deriv c (Sym p) = (if p c then Eps else Zero)"
| "deriv c (Alt r s) = Alt (deriv c r) (deriv c s)"
| "deriv c (Seq r s) =
     (if nullable r then Alt (Seq (deriv c r) s) (deriv c s) else Seq (deriv c r) s)"
| "deriv c (Star r) = Seq (deriv c r) (Star r)"

definition matches :: "rx \<Rightarrow> string \<Rightarrow> bool" where
  "matches r s = nullable (foldl (\<lambda>r c. deriv c r) r s)"

definition any_char :: rx where "any_char = Sym (\<lambda>c. True)"

text \<open>\<^verbatim>\<open>MatchString\<close> is an unanchored search.\<close>

definition MatchString :: "rx \<Rightarrow> string \<Rightarrow> bool" where
  "MatchString r s = matches (Seq (Star any_char) (Seq r (Star any_char))) s"

definition chr :: "char \<Rightarrow> rx" where "chr c = Sym (\<lambda>x. x = c)"

fun lit :: "string \<Rightarrow> rx" where
  "lit [] = Eps"
| "lit (c # cs) = Seq (chr c) (lit cs)"

fun seqs :: "rx list \<Rightarrow> rx" where
  "seqs [] = Eps"
| "seqs [r] = r"
| "seqs (r # rs) = Seq r (seqs rs)"

fun alts :: "rx list \<Rightarrow> rx" where
  "alts [] = Zero"
| "alts [r] = r"
| "alts (r # rs) = Alt r (alts rs)"

definition plus :: "rx \<Rightarrow> rx" where "plus r = Seq r (Star r)"
definition opt :: "rx \<Rightarrow> rx" where "opt r = Alt r Eps"

definition in_range :: "nat \<Rightarrow> nat \<Rightarrow> char \<Rightarrow> bool" where
  "in_range lo hi c = (lo \<le> of_char c \<and> of_char c \<le> hi)"

text \<open>\<^verbatim>\<open>\s\<close> is \<^verbatim>\<open>[\t\n\f\r ]\<close> and \<^verbatim>\<open>\w\<close> is \<^verbatim>\<open>[0-9A-Za-z_]\<close> in Go; \<^verbatim>\<open>.\<close> excludes the newline.\<close>

definition is_s :: "char \<Rightarrow> bool" where
  "is_s c = (of_char c \<in> {9, 10, 12, 13, 32 :: nat})"

definition is_w :: "char \<Rightarrow> bool" where
  "is_w c = (in_range 48 57 c \<or> in_range 65 90 c \<or> c = CHR ''_'' \<or> in_range 97 122 c)"

definition rs :: rx where "rs = Sym is_s"
definition rw :: rx where "rw = Sym is_w"
definition dot :: rx where "dot = Sym (\<lambda>c. c \<noteq> CHR 0x0A)"

lemmas rx_defs = MatchString_def matches_def any_char_def chr_def plus_def opt_def
  in_range_def is_s_def is_w_def rs_def rw_def dot_def

section \<open>Language detector (src/services/language\_detector.go)\<close>

definition java_patterns :: "rx list" where
  "java_patterns =
    [seqs [lit ''package'', plus rs, Sym (in_range 97 122),
           Star (Sym (\<lambda>c. in_range 97 122 c \<or> in_range 48 57 c \<or> c = CHR ''_'' \<or> c = CHR ''.'')),
           chr CHR '';''],
     seqs [lit ''import'', plus rs, alts [lit ''java'', lit ''javax'', lit ''org''], chr CHR ''.''],
     seqs [lit ''public'', plus rs, alts [lit ''class'', lit ''interface'', lit ''enum''], plus rs, plus rw],
     seqs [chr CHR ''@'', alts [lit ''Override'', lit ''Autowired'', lit ''Entity'', lit ''Controller'',
                               lit ''Service'', lit ''Repository'']],
     seqs [alts [lit ''public'', lit ''private'', lit ''protected''], plus rs,
           opt (Seq (lit ''static'') (plus rs)),
           alts [lit ''void'', lit ''int'', lit ''String'', lit ''boolean'']]]"

definition csharp_patterns :: "rx list" where
  "csharp_patterns =
    [seqs [lit ''using'', plus rs, lit ''System''],
     seqs [lit ''namespace'', plus rs, plus rw],
     seqs [alts [lit ''public'', lit ''private'', lit ''protected''], plus rs,
           alts [lit ''class'', lit ''interface'', lit ''struct''], plus rs, plus rw],
     seqs [lit ''[assembly:'', Star rs, plus rw],
     seqs [opt (Seq (lit ''async'') (plus rs)), lit ''Task<'']]"

definition react_import :: rx where
  "react_import =
     seqs [lit ''import'', plus rs, Star dot, lit ''from'', plus rs,
           Sym (\<lambda>c. c = CHR 0x27 \<or> c = CHR 0x22), lit ''react'',
           Sym (\<lambda>c. c = CHR 0x27 \<or> c = CHR 0x22)]"

definition jsx_tag :: rx where
  "jsx_tag = seqs [chr CHR ''<'', plus rw, Star (Sym (\<lambda>c. c \<noteq> CHR ''>'')), chr CHR ''>'']"

definition react_typescript_patterns :: "rx list" where
  "react_typescript_patterns =
    [react_import,
     seqs [lit ''interface'', plus rs, plus rw, Star rs, chr CHR ''{''],
     seqs [lit ''type'', plus rs, plus rw, Star rs, chr CHR ''=''],
     seqs [chr CHR '':'', Star rs, opt (lit ''React.''), lit ''FC<''],
     jsx_tag]"

definition react_javascript_patterns :: "rx list" where
  "react_javascript_patterns =
    [react_import,
     lit ''React.createElement'',
     alts [lit ''useState'', lit ''useEffect'', lit ''useCallback'', lit ''useMemo''],
     jsx_tag,
     seqs [lit ''export'', plus rs, opt (Seq (lit ''default'') (plus rs)),
           alts [lit ''function'', lit ''const''], plus rs, plus rw]]"

lemmas pattern_defs = java_patterns_def csharp_patterns_def react_import_def jsx_tag_def
  react_typescript_patterns_def react_javascript_patterns_def

text \<open>\<^verbatim>\<open>ld.patterns\<close>, the map filled by \<^verbatim>\<open>initializePatterns\<close>.\<close>

definition patterns :: "LanguageType \<rightharpoonup> rx list" where
  "patterns =
     [JAVA \<mapsto> java_patterns, CSHARP \<mapsto> csharp_patterns,
      REACT_TYPESCRIPT \<mapsto> react_typescript_patterns,
      REACT_JAVASCRIPT \<mapsto> react_javascript_patterns]"

text \<open>
  \<^verbatim>\<open>filepath.Ext\<close> scans the path from its end, stops at a path separator and
  returns the suffix from the last dot of the final element (the separator is \<^verbatim>\<open>/\<close>, as
  on Unix). The first argument is the part of the path not yet scanned, reversed.
\<close>

fun Ext_scan :: "string \<Rightarrow> string \<Rightarrow> string" where
  "Ext_scan [] suffix = []"
| "Ext_scan (c # cs) suffix =
     (if c = CHR ''/'' then []
      else if c = CHR ''.'' then c # suffix
      else Ext_scan cs (c # suffix))"

definition Ext :: "string \<Rightarrow> string" where
  "Ext path = Ext_scan (rev path) []"

text \<open>
  \<^verbatim>\<open>strings.ToLower\<close> on the ASCII letters. Go also maps letters outside ASCII, but none
  of them to a letter that occurs in an extension of the table, so the \<^verbatim>\<open>switch\<close> below
  takes the same branch.
\<close>

definition lower_char :: "char \<Rightarrow> char" where
  "lower_char c =
     (case map_of (zip ''ABCDEFGHIJKLMNOPQRSTUVWXYZ'' ''abcdefghijklmnopqrstuvwxyz'') c of
        Some l \<Rightarrow> l
      | None \<Rightarrow> c)"

definition ToLower :: "string \<Rightarrow> string" where
  "ToLower s = map lower_char s"

definition DetectFromExtension :: "string \<Rightarrow> LanguageType" where
  "DetectFromExtension filePath =
     (if filePath = [] then UNKNOWN
      else let ext = ToLower (Ext filePath) in
        if ext = ''.java'' then JAVA
        else if ext = ''.cs'' then CSHARP
        else if ext = ''.tsx'' then REACT_TYPESCRIPT
        else if ext = ''.ts'' then REACT_TYPESCRIPT
        else if ext = ''.jsx'' then REACT_JAVASCRIPT
        else if ext = ''.js'' then REACT_JAVASCRIPT
        else UNKNOWN)"

text \<open>
  \<^verbatim>\<open>DetectFromContent\<close> ranges over two Go maps. The language does not fix the order of
  such a loop, nor that two loops over one map agree, so each loop takes its order as
  an argument: a list of keys, which for a real run is a permutation of the map's keys
  (\<open>map_order\<close>). A key of the list that the map does not hold is skipped.
\<close>

definition map_order :: "('k \<rightharpoonup> 'v) \<Rightarrow> 'k list \<Rightarrow> bool" where
  "map_order m keys = (distinct keys \<and> set keys = dom m)"

definition bump :: "(LanguageType \<rightharpoonup> nat) \<Rightarrow> LanguageType \<Rightarrow> (LanguageType \<rightharpoonup> nat)" where
  "bump scores lang = scores(lang \<mapsto> (case scores lang of None \<Rightarrow> 1 | Some n \<Rightarrow> n + 1))"

definition score_lang :: "string \<Rightarrow> (LanguageType \<rightharpoonup> nat) \<Rightarrow> LanguageType \<Rightarrow> (LanguageType \<rightharpoonup> nat)" where
  "score_lang code scores lang =
     (case patterns lang of
        None \<Rightarrow> scores
      | Some ps \<Rightarrow> foldl (\<lambda>sc pattern. if MatchString pattern code then bump sc lang else sc) scores ps)"

definition compute_scores :: "LanguageType list \<Rightarrow> string \<Rightarrow> (LanguageType \<rightharpoonup> nat)" where
  "compute_scores pattern_keys code = foldl (score_lang code) Map.empty pattern_keys"

definition pick_step :: "(LanguageType \<rightharpoonup> nat) \<Rightarrow> nat \<times> LanguageType \<Rightarrow> LanguageType \<Rightarrow> nat \<times> LanguageType" where
  "pick_step scores best lang =
     (case scores lang of
        None \<Rightarrow> best
      | Some score \<Rightarrow> if score > fst best then (score, lang) else best)"

definition DetectFromContent :: "LanguageType list \<Rightarrow> LanguageType list \<Rightarrow> string \<Rightarrow> LanguageType" where
  "DetectFromContent pattern_keys score_keys code =
     snd (foldl (pick_step (compute_scores pattern_keys code)) (0, UNKNOWN) score_keys)"

text \<open>
  \<^verbatim>\<open>Detect\<close> calls the content stage at two places; \<open>o1\<close> holds the two loop orders of
  the call that verifies a React extension, \<open>o2\<close> those of the final fallback call.
\<close>

definition Detect ::
  "LanguageType list \<times> LanguageType list \<Rightarrow> LanguageType list \<times> LanguageType list \<Rightarrow>
   string \<Rightarrow> string \<Rightarrow> LanguageType" where
  "Detect o1 o2 code filePath =
     (let fallback = DetectFromContent (fst o2) (snd o2) code in
      if filePath \<noteq> [] then
        let lang = DetectFromExtension filePath in
        if lang \<noteq> UNKNOWN then
          if lang = REACT_TYPESCRIPT \<or> lang = REACT_JAVASCRIPT then
            let contentLang = DetectFromContent (fst o1) (snd o1) code in
            if contentLang = lang then lang else fallback
          else lang
        else fallback
      else fallback)"

section \<open>String helpers\<close>

fun starts_with :: "string \<Rightarrow> string \<Rightarrow> bool" where
  "starts_with [] s = True"
| "starts_with (p # ps) [] = False"
| "starts_with (p # ps) (c # cs) = (p = c \<and> starts_with ps cs)"

text \<open>
  \<open>split_first p s\<close> cuts \<open>s\<close> at the first (leftmost) occurrence of \<open>p\<close>: the text
  before it and the text after it; \<open>None\<close> when \<open>p\<close> does not occur.
\<close>

fun split_first :: "string \<Rightarrow> string \<Rightarrow> (string \<times> string) option" where
  "split_first p [] = (if p = [] then Some ([], []) else None)"
| "split_first p (c # cs) =
     (if starts_with p (c # cs) then Some ([], drop (length p) (c # cs))
      else map_option (\<lambda>(before, after). (c # before, after)) (split_first p cs))"

text \<open>
  \<^verbatim>\<open>strings.TrimSpace\<close> removes the leading and trailing runes that Unicode calls white
  space. On the bytes of the string these are the UTF-8 encodings below: U+0009 to
  U+000D, U+0020, U+0085, U+00A0, U+1680, U+2000 to U+200A, U+2028, U+2029, U+202F,
  U+205F and U+3000. A rune is read from the front by its encoding as a prefix and from
  the back by its encoding as a suffix.
\<close>

definition unicode_spaces :: "string list" where
  "unicode_spaces =
     [[CHR 0x09], [CHR 0x0A], [CHR 0x0B], [CHR 0x0C], [CHR 0x0D], [CHR 0x20],
      [CHR 0xC2, CHR 0x85], [CHR 0xC2, CHR 0xA0],
      [CHR 0xE1, CHR 0x9A, CHR 0x80],
      [CHR 0xE2, CHR 0x80, CHR 0x80], [CHR 0xE2, CHR 0x80, CHR 0x81],
      [CHR 0xE2, CHR 0x80, CHR 0x82], [CHR 0xE2, CHR 0x80, CHR 0x83],
      [CHR 0xE2, CHR 0x80, CHR 0x84], [CHR 0xE2, CHR 0x80, CHR 0x85],
      [CHR 0xE2, CHR 0x80, CHR 0x86], [CHR 0xE2, CHR 0x80, CHR 0x87],
      [CHR 0xE2, CHR 0x80, CHR 0x88], [CHR 0xE2, CHR 0x80, CHR 0x89],
      [CHR 0xE2, CHR 0x80, CHR 0x8A],
      [CHR 0xE2, CHR 0x80, CHR 0xA8], [CHR 0xE2, CHR 0x80, CHR 0xA9],
      [CHR 0xE2, CHR 0x80, CHR 0xAF], [CHR 0xE2, CHR 0x81, CHR 0x9F],
      [CHR 0xE3, CHR 0x80, CHR 0x80]]"

definition leading_of :: "string list \<Rightarrow> string \<Rightarrow> string option" where
  "leading_of sps s = find (\<lambda>sp. sp \<noteq> [] \<and> starts_with sp s) sps"

lemma starts_with_length: "starts_with p s \<Longrightarrow> length p \<le> length s"
  by (induction p s rule: starts_with.induct) auto

lemma leading_of_shorter:
  "leading_of sps s = Some sp \<Longrightarrow> length (drop (length sp) s) < length s"
proof -
  assume "leading_of sps s = Some sp"
  then have "sp \<noteq> []" and "starts_with sp s"
    by (auto simp: leading_of_def find_Some_iff)
  then show ?thesis
    using starts_with_length [of sp s] by (cases sp) auto
qed

function trim_with :: "string list \<Rightarrow> string \<Rightarrow> string" where
  "trim_with sps s =
     (case leading_of sps s of
        None \<Rightarrow> s
      | Some sp \<Rightarrow> trim_with sps (drop (length sp) s))"
  by pat_completeness auto
termination
  by (relation "measure (\<lambda>(sps, s). length s)") (auto dest: leading_of_shorter)

declare trim_with.simps [simp del]

definition TrimSpace :: "string \<Rightarrow> string" where
  "TrimSpace s = rev (trim_with (map rev unicode_spaces) (rev (trim_with unicode_spaces s)))"

section \<open>Preprocessor\<close>

text \<open>
  \<^verbatim>\<open>multiLineComment.ReplaceAllString(code, "")\<close> with the pattern \<^verbatim>\<open>/\*[\s\S]*?\*/\<close>:
  scanning from the left, a \<^verbatim>\<open>/*\<close> that is followed (after its two bytes) by a \<^verbatim>\<open>*/\<close> is
  deleted together with everything up to and including the nearest such \<^verbatim>\<open>*/\<close> (the
  quantifier is lazy), and the scan goes on behind it; any other byte is kept.
\<close>

lemma split_first_after_length:
  "split_first p s = Some (before, after) \<Longrightarrow> length after \<le> length s"
proof (induction s arbitrary: before)
  case Nil
  then show ?case by (simp split: if_splits)
next
  case (Cons c cs)
  then show ?case by (auto split: if_splits)
qed

function strip_block_comments :: "string \<Rightarrow> string" where
  "strip_block_comments [] = []"
| "strip_block_comments (c # cs) =
     (if starts_with ''/*'' (c # cs) then
        (case split_first ''*/'' (drop 2 (c # cs)) of
           Some (comment, after) \<Rightarrow> strip_block_comments after
         | None \<Rightarrow> c # strip_block_comments cs)
      else c # strip_block_comments cs)"
  by pat_completeness auto
termination
proof (relation "measure length")
  fix c cs x2 comment after
  assume "split_first ''*/'' (drop 2 (c # cs)) = Some x2" and "(comment, after) = x2"
  then have "length after \<le> length (drop 2 (c # cs))"
    using split_first_after_length [of "''*/''" "drop 2 (c # cs)" comment after] by simp
  then show "(after, c # cs) \<in> measure length" by simp
qed auto

text \<open>
  \<^verbatim>\<open>singleLineComment.ReplaceAllString(code, "")\<close> with the pattern \<^verbatim>\<open>//.*\<close>: a \<^verbatim>\<open>//\<close> is
  deleted together with the rest of its line; \<^verbatim>\<open>.\<close> does not match the newline, which is
  kept.
\<close>

function strip_line_comments :: "string \<Rightarrow> string" where
  "strip_line_comments [] = []"
| "strip_line_comments (c # cs) =
     (if starts_with ''//'' (c # cs)
      then strip_line_comments (dropWhile (\<lambda>x. x \<noteq> CHR 0x0A) (drop 2 (c # cs)))
      else c # strip_line_comments cs)"
  by pat_completeness auto
termination
proof (relation "measure length")
  fix c cs
  have "length (dropWhile (\<lambda>x. x \<noteq> CHR 0x0A) (drop 2 (c # cs))) \<le> length (drop 2 (c # cs))"
    by (rule length_dropWhile_le)
  then show "(dropWhile (\<lambda>x. x \<noteq> CHR 0x0A) (drop 2 (c # cs)), c # cs) \<in> measure length"
    by simp
qed auto

definition removeComments :: "string \<Rightarrow> string" where
  "removeComments code = strip_line_comments (strip_block_comments code)"

definition PreprocessCode :: "string \<Rightarrow> LanguageType \<Rightarrow> string" where
  "PreprocessCode code language =
     (if language = JAVA \<or> language = CSHARP \<or> language = REACT_TYPESCRIPT
         \<or> language = REACT_JAVASCRIPT
      then removeComments code
      else code)"

section \<open>Response extractor\<close>

text \<open>
  \<^verbatim>\<open>codeBlockRegex.FindStringSubmatch\<close> with the pattern
  \<^verbatim>\<open>```(?:json)?\s*([\s\S]*?)```\<close>, giving the text of the capture group. The match
  starts at the first fence; the optional \<^verbatim>\<open>json\<close> and the white space behind it are
  taken greedily, the group lazily up to the next fence. (Neither \<^verbatim>\<open>json\<close> nor white
  space holds a backquote, so giving them back never helps the match.)
\<close>

definition code_block :: "string \<Rightarrow> string option" where
  "code_block response =
     (case split_first ''```'' response of
        None \<Rightarrow> None
      | Some (before, rest) \<Rightarrow>
          let rest1 = (if starts_with ''json'' rest then drop 4 rest else rest);
              rest2 = dropWhile is_s rest1
          in map_option fst (split_first ''```'' rest2))"

text \<open>
  \<^verbatim>\<open>jsonRegex.FindStringSubmatch\<close> with the pattern \<^verbatim>\<open>(\[[\s\S]*\]|\{[\s\S]*\})\<close>: at
  the leftmost position where an alternative matches, the bracket alternative is tried
  before the brace one, and the greedy star runs to the last closing symbol.
\<close>

definition through_last :: "char \<Rightarrow> string \<Rightarrow> string" where
  "through_last x cs = rev (dropWhile (\<lambda>y. y \<noteq> x) (rev cs))"

fun json_span :: "string \<Rightarrow> string option" where
  "json_span [] = None"
| "json_span (c # cs) =
     (if c = CHR ''['' \<and> CHR '']'' \<in> set cs then Some (c # through_last CHR '']'' cs)
      else if c = CHR ''{'' \<and> CHR ''}'' \<in> set cs then Some (c # through_last CHR ''}'' cs)
      else json_span cs)"

definition extractJSON :: "string \<Rightarrow> string" where
  "extractJSON response =
     (case code_block response of
        Some inner \<Rightarrow> TrimSpace inner
      | None \<Rightarrow>
          (case json_span response of
             Some found \<Rightarrow> TrimSpace found
           | None \<Rightarrow> response))"

section \<open>What lies outside the repository\<close>

text \<open>
  A decoded JSON value. A number keeps its literal. An object keeps its members in the
  order of the text, duplicates included.
\<close>

datatype json =
  JNull | JBool bool | JNumber string | JString string
  | JArray "json list" | JObject "(string \<times> json) list"

text \<open>The outcome of \<^verbatim>\<open>LLMService.HealthCheck\<close>: an HTTP status was received (and was
  200 or not), or the transport failed.\<close>

datatype probe = Reachable bool | TransportError string

text \<open>
  The backend, the JSON library, the clock, the rule prompts and the order of the
  map loops are inputs of the model. An error is the text of the Go error value
  (\<open>Inl\<close>).
  \<^item> \<open>llm_analyze w code prompt\<close> is \<^verbatim>\<open>LLMService.Analyze\<close>: the reply's text or an error;
  \<^item> \<open>llm_probe w\<close> is what the liveness request meets;
  \<^item> \<open>json_text w s\<close> is the syntax layer of \<^verbatim>\<open>json.Unmarshal\<close>: the value that the text
    \<open>s\<close> denotes, or the syntax error;
  \<^item> \<open>json_issue_elems w cur vs\<close> is the decoding of the elements \<open>vs\<close> of a JSON array
    into a \<^verbatim>\<open>[]SecurityIssue\<close> that holds \<open>cur\<close>: the resulting slice, or the first error;
  \<^item> \<open>elapsed w\<close> is \<^verbatim>\<open>time.Since(startTime).String()\<close>;
  \<^item> \<open>rules_prompt w lang\<close> is \<^verbatim>\<open>GetSecurityRulesPrompt()\<close> of the analyzer of \<open>lang\<close>;
  \<^item> \<open>verify_order w\<close> and \<open>fallback_order w\<close> are the loop orders of the two content-stage
    calls of \<^verbatim>\<open>Detect\<close>, \<open>analyzers_order w\<close> that of the loop over \<^verbatim>\<open>s.analyzers\<close>.
\<close>

record world =
  llm_analyze :: "string \<Rightarrow> string \<Rightarrow> string + string"
  llm_probe :: probe
  json_text :: "string \<Rightarrow> string + json"
  json_issue_elems :: "SecurityIssue list \<Rightarrow> json list \<Rightarrow> string + SecurityIssue list"
  elapsed :: string
  rules_prompt :: "LanguageType \<Rightarrow> string"
  verify_order :: "LanguageType list \<times> LanguageType list"
  fallback_order :: "LanguageType list \<times> LanguageType list"
  analyzers_order :: "LanguageType list"


section \<open>Decoding the reply (\<^verbatim>\<open>json.Unmarshal\<close> at the two target types)\<close>

text \<open>
  \<^verbatim>\<open>encoding/json\<close> matches an object key with a struct field by name, ignoring case:
  both are folded, an ASCII letter to upper case, and the two letters outside ASCII
  that fold into ASCII (U+017F to S, U+212A to K) likewise.
\<close>

definition upper_char :: "char \<Rightarrow> char" where
  "upper_char c =
     (case map_of (zip ''abcdefghijklmnopqrstuvwxyz'' ''ABCDEFGHIJKLMNOPQRSTUVWXYZ'') c of
        Some u \<Rightarrow> u
      | None \<Rightarrow> c)"

fun fold_name :: "string \<Rightarrow> string" where
  "fold_name [] = []"
| "fold_name [c] = [upper_char c]"
| "fold_name [c, d] = (if c = CHR 0xC5 \<and> d = CHR 0xBF then ''S'' else upper_char c # fold_name [d])"
| "fold_name (c # d # e # cs) =
     (if c = CHR 0xC5 \<and> d = CHR 0xBF then CHR ''S'' # fold_name (e # cs)
      else if c = CHR 0xE2 \<and> d = CHR 0x84 \<and> e = CHR 0xAA then CHR ''K'' # fold_name cs
      else upper_char c # fold_name (d # e # cs))"

definition key_matches :: "string \<Rightarrow> string \<Rightarrow> bool" where
  "key_matches field key = (fold_name key = fold_name field)"

definition type_error :: "string \<Rightarrow> string" where
  "type_error kind =
     ''json: cannot unmarshal '' @ kind @ '' into Go value of type []models.SecurityIssue''"

text \<open>
  Into \<^verbatim>\<open>[]models.SecurityIssue\<close>: an array is decoded element by element, \<^verbatim>\<open>null\<close>
  leaves the nil slice, every other value is a type error.
\<close>

definition unmarshal_issues :: "world \<Rightarrow> string \<Rightarrow> string + SecurityIssue list" where
  "unmarshal_issues w text =
     (case json_text w text of
        Inl err \<Rightarrow> Inl err
      | Inr j \<Rightarrow>
          (case j of
             JArray vs \<Rightarrow> json_issue_elems w [] vs
           | JNull \<Rightarrow> Inr []
           | JBool b \<Rightarrow> Inl (type_error ''bool'')
           | JNumber n \<Rightarrow> Inl (type_error ''number'')
           | JString s \<Rightarrow> Inl (type_error ''string'')
           | JObject kvs \<Rightarrow> Inl (type_error ''object'')))"

text \<open>
  Into \<^verbatim>\<open>struct { Issues []models.SecurityIssue `json:"issues"` }\<close>: the members of an
  object are visited in order; one whose key matches \<^verbatim>\<open>issues\<close> is decoded into the
  field, any other is skipped. The caller only tests this error against nil, so the
  failure is \<open>None\<close>.
\<close>

fun wrapper_fields :: "world \<Rightarrow> SecurityIssue list \<Rightarrow> (string \<times> json) list \<Rightarrow> SecurityIssue list option" where
  "wrapper_fields w issues [] = Some issues"
| "wrapper_fields w issues ((key, v) # kvs) =
     (if key_matches ''issues'' key then
        (case v of
           JNull \<Rightarrow> wrapper_fields w [] kvs
         | JArray vs \<Rightarrow>
             (case json_issue_elems w issues vs of
                Inl err \<Rightarrow> None
              | Inr issues' \<Rightarrow> wrapper_fields w issues' kvs)
         | JBool b \<Rightarrow> None
         | JNumber n \<Rightarrow> None
         | JString s \<Rightarrow> None
         | JObject m \<Rightarrow> None)
      else wrapper_fields w issues kvs)"

definition unmarshal_wrapper :: "world \<Rightarrow> string \<Rightarrow> SecurityIssue list option" where
  "unmarshal_wrapper w text =
     (case json_text w text of
        Inl err \<Rightarrow> None
      | Inr j \<Rightarrow>
          (case j of
             JObject kvs \<Rightarrow> wrapper_fields w [] kvs
           | JNull \<Rightarrow> Some []
           | JBool b \<Rightarrow> None
           | JNumber n \<Rightarrow> None
           | JString s \<Rightarrow> None
           | JArray vs \<Rightarrow> None))"

section \<open>Analysis pipeline\<close>

definition enrich_issue :: "string \<Rightarrow> nat \<Rightarrow> SecurityIssue \<Rightarrow> SecurityIssue" where
  "enrich_issue filePath i issue =
     (let issue1 = (if FilePath issue = [] then issue\<lparr>FilePath := filePath\<rparr> else issue)
      in if ID issue1 = [] then issue1\<lparr>ID := ''ISSUE-'' @ show_nat (i + 1)\<rparr> else issue1)"

definition enrich :: "string \<Rightarrow> SecurityIssue list \<Rightarrow> SecurityIssue list" where
  "enrich filePath issues = map (\<lambda>(i, issue). enrich_issue filePath i issue) (enumerate 0 issues)"

definition parseIssuesFromResponse :: "world \<Rightarrow> string \<Rightarrow> string \<Rightarrow> string + SecurityIssue list" where
  "parseIssuesFromResponse w response filePath =
     (let jsonStr = extractJSON response in
      case unmarshal_issues w jsonStr of
        Inr issues \<Rightarrow> Inr (enrich filePath issues)
      | Inl err \<Rightarrow>
          (case unmarshal_wrapper w jsonStr of
             None \<Rightarrow> Inl (''failed to parse issues: '' @ err)
           | Some issues \<Rightarrow> Inr (enrich filePath issues)))"

definition AnalyzeWithLLM ::
  "world \<Rightarrow> LanguageType \<Rightarrow> string \<Rightarrow> string \<Rightarrow> string \<Rightarrow> string + AnalysisResult" where
  "AnalyzeWithLLM w language code filePath securityRulesPrompt =
     (let preprocessed = PreprocessCode code language in
      case llm_analyze w preprocessed securityRulesPrompt of
        Inl err \<Rightarrow> Inl (''LLM analysis failed: '' @ err)
      | Inr response \<Rightarrow>
          (case parseIssuesFromResponse w response filePath of
             Inl err \<Rightarrow> Inl (''failed to parse LLM response: '' @ err)
           | Inr issues \<Rightarrow>
               Inr \<lparr>Language = language, Issues = issues, Summary = generateSummary issues,
                    AnalysisMetadata = generateMetadata issues language (elapsed w)\<rparr>))"

text \<open>\<^verbatim>\<open>Analyze\<close> of the Java, C\# and React analyzers: the pipeline with the analyzer's
  own language and rule prompt.\<close>

definition Analyze :: "world \<Rightarrow> LanguageType \<Rightarrow> string \<Rightarrow> string \<Rightarrow> string + AnalysisResult" where
  "Analyze w language code filePath =
     AnalyzeWithLLM w language code filePath (rules_prompt w language)"

section \<open>Protocol engine: the tool handlers (src/AeyeWire\_mcp.go)\<close>

record MCPError =
  Code :: int
  Message :: string

record MCPResponse =
  JSONRPC :: string
  ResponseID :: json
  Result :: "json option"
  Error :: "MCPError option"

text \<open>
  A handler returns nothing; what it does is the sequence of its calls to the
  collaborators and of the responses it prints, in order.
\<close>

datatype event =
  DetectCall string string
  | BackendCall string string
  | ProbeCall
  | Printed MCPResponse

definition sendResponse :: "json \<Rightarrow> json \<Rightarrow> event" where
  "sendResponse rid result =
     Printed \<lparr>JSONRPC = ''2.0'', ResponseID = rid, Result = Some result, Error = None\<rparr>"

definition sendError :: "json \<Rightarrow> int \<Rightarrow> string \<Rightarrow> event" where
  "sendError rid code message =
     Printed \<lparr>JSONRPC = ''2.0'', ResponseID = rid, Result = None,
              Error = Some \<lparr>Code = code, Message = message\<rparr>\<rparr>"

text \<open>\<^verbatim>\<open>s.analyzers\<close> as \<^verbatim>\<open>NewMCPServer\<close> fills it: each key with the language of its analyzer.\<close>

definition analyzers :: "LanguageType \<rightharpoonup> LanguageType" where
  "analyzers =
     [JAVA \<mapsto> JAVA, CSHARP \<mapsto> CSHARP, REACT_TYPESCRIPT \<mapsto> REACT_TYPESCRIPT,
      REACT_JAVASCRIPT \<mapsto> REACT_JAVASCRIPT]"

text \<open>The type assertion \<^verbatim>\<open>v, ok := args[key].(string)\<close> on a map that may be nil or lack
  the key.\<close>

definition as_string :: "json option \<Rightarrow> string \<times> bool" where
  "as_string v = (case v of Some (JString s) \<Rightarrow> (s, True) | _ \<Rightarrow> ([], False))"

definition text_content :: "string \<Rightarrow> json" where
  "text_content text =
     JObject [(''content'', JArray [JObject [(''type'', JString ''text''), (''text'', JString text)]])]"

definition handleAnalyzeSecurity :: "world \<Rightarrow> json \<Rightarrow> (string \<rightharpoonup> json) \<Rightarrow> event list" where
  "handleAnalyzeSecurity w requestID args =
     (let (code, ok) = as_string (args ''code'') in
      if \<not> ok \<or> code = [] then
        [sendError requestID (- 32602) ''Missing or invalid 'code' parameter'']
      else
        let filePath = fst (as_string (args ''file_path''));
            languageStr = fst (as_string (args ''language''));
            (language, detect) =
              (if languageStr \<noteq> [] \<and> languageStr \<noteq> ''auto'' then (languageStr, [])
               else (Detect (verify_order w) (fallback_order w) code filePath,
                     [DetectCall code filePath]))
        in case analyzers language of
             None \<Rightarrow> detect @ [sendError requestID (- 32602) (''Unsupported language: '' @ language)]
           | Some analyzer \<Rightarrow>
               detect
               @ [BackendCall (PreprocessCode code analyzer) (rules_prompt w analyzer)]
               @ (case Analyze w analyzer code filePath of
                    Inl err \<Rightarrow> [sendError requestID (- 32603) (''Analysis failed: '' @ err)]
                  | Inr result \<Rightarrow> [sendResponse requestID (text_content (FormatAsMarkdown result))]))"

text \<open>
  \<^verbatim>\<open>json.MarshalIndent(healthResponse, "", "  ")\<close>. The strings that the handler stores
  in the structure hold no character that JSON escapes, so quoting them is enough.
\<close>

definition quoted :: "string \<Rightarrow> string" where
  "quoted s = [CHR 0x22] @ s @ [CHR 0x22]"





section \<open>Notions used to state the properties\<close>

definition known_severity :: "SeverityLevel \<Rightarrow> bool" where
  "known_severity s = (s = CRITICAL \<or> s = HIGH \<or> s = MEDIUM \<or> s = LOW)"

definition severity_total :: "AnalysisMetadata \<Rightarrow> nat" where
  "severity_total m = CriticalCount m + HighCount m + MediumCount m + LowCount m"

definition count_newlines :: "string \<Rightarrow> nat" where
  "count_newlines s = length (filter (\<lambda>c. c = CHR 0x0A) s)"

text \<open>The number of signatures of a language that match the code.\<close>

definition match_count :: "LanguageType \<Rightarrow> string \<Rightarrow> nat" where
  "match_count lang code =
     (case patterns lang of
        None \<Rightarrow> 0
      | Some ps \<Rightarrow> length (filter (\<lambda>pattern. MatchString pattern code) ps))"

text \<open>A score is only ever entered for a language one of whose signatures matched.\<close>

definition scored_by_match :: "string \<Rightarrow> (LanguageType \<rightharpoonup> nat) \<Rightarrow> bool" where
  "scored_by_match code scores = (\<forall>lang n. scores lang = Some n \<longrightarrow> 0 < match_count lang code)"

text \<open>
  Concrete collaborators for the examples: a backend that always sends \<open>reply\<close>, a JSON
  reader that knows three texts, and an element decoder that reads the \<^verbatim>\<open>severity\<close>
  member of each object into an otherwise zero \<^verbatim>\<open>SecurityIssue\<close>.
\<close>

definition zero_issue :: SecurityIssue where
  "zero_issue =
     \<lparr>ID = [], Title = [], Description = [], Severity = [], LineNumber = 0, ColumnNumber = 0,
      FilePath = [], CodeSnippet = [], Remediation = [], References = []\<rparr>"

definition severity_member :: "string \<Rightarrow> string" where
  "severity_member s = ''[{'' @ quoted ''severity'' @ '':'' @ quoted s @ ''}]''"

definition example_json_text :: "string \<Rightarrow> string + json" where
  "example_json_text s =
     (if s = severity_member ''INFO'' then Inr (JArray [JObject [(''severity'', JString ''INFO'')]])
      else if s = severity_member ''HIGH'' then Inr (JArray [JObject [(''severity'', JString ''HIGH'')]])
      else if s = ''{'' @ quoted ''foo'' @ '': 1}'' then Inr (JObject [(''foo'', JNumber ''1'')])
      else Inl ''invalid character'')"

definition example_issue :: "json \<Rightarrow> SecurityIssue" where
  "example_issue v =
     (case v of
        JObject kvs \<Rightarrow>
          (case map_of kvs ''severity'' of
             Some (JString s) \<Rightarrow> zero_issue\<lparr>Severity := s\<rparr>
           | _ \<Rightarrow> zero_issue)
      | _ \<Rightarrow> zero_issue)"

definition example_world :: "string \<Rightarrow> world" where
  "example_world reply =
     \<lparr>llm_analyze = (\<lambda>code prompt. Inr reply),
      llm_probe = TransportError ''connection refused'',
      json_text = example_json_text,
      json_issue_elems = (\<lambda>cur vs. Inr (map example_issue vs)),
      elapsed = ''1s'',
      rules_prompt = (\<lambda>lang. ''Analyze''),
      verify_order = ([JAVA, CSHARP, REACT_TYPESCRIPT, REACT_JAVASCRIPT], [REACT_JAVASCRIPT, REACT_TYPESCRIPT]),
      fallback_order = ([JAVA, CSHARP, REACT_TYPESCRIPT, REACT_JAVASCRIPT], [REACT_JAVASCRIPT, REACT_TYPESCRIPT]),
      analyzers_order = [JAVA, CSHARP, REACT_TYPESCRIPT, REACT_JAVASCRIPT]\<rparr>"

definition example_result :: "SeverityLevel \<Rightarrow> string \<Rightarrow> nat \<Rightarrow> AnalysisResult" where
  "example_result sev summary high =
     \<lparr>Language = JAVA,
      Issues = [zero_issue\<lparr>Severity := sev, FilePath := ''A.java'', ID := ''ISSUE-1''\<rparr>],
      Summary = summary,
      AnalysisMetadata =
        \<lparr>AnalysisTime = ''1s'', IssuesFound = 1,
         CriticalCount = 0, HighCount = high, MediumCount = 0, LowCount = 0,
         DetectedLanguage = JAVA, Errors = []\<rparr>\<rparr>"

text \<open>
  Code bodies of the repository's own tests (\<^verbatim>\<open>TestDetect\<close>, case ``React TypeScript
  with extension'', and \<^verbatim>\<open>TestDetectFromContent\<close>, case ``Unknown code''), and the keys
  of \<^verbatim>\<open>ld.patterns\<close> in the order of their insertion.
\<close>

definition tsx_test_code :: string where
  "tsx_test_code =
     ''import React from 'react';'' @ [CHR 0x0A] @ ''const Component: React.FC = () => <div />;''"

definition unknown_test_code :: string where
  "unknown_test_code = ''print('' @ quoted ''Hello World'' @ '')''"

definition pattern_keys0 :: "LanguageType list" where
  "pattern_keys0 = [JAVA, CSHARP, REACT_TYPESCRIPT, REACT_JAVASCRIPT]"

text \<open>
  Replies that are JSON objects: with an \<^verbatim>\<open>issues\<close> member that is a number, with an
  \<^verbatim>\<open>Issues\<close> member (capital I) that is an array of one finding, and with an \<^verbatim>\<open>issues\<close>
  member that is \<^verbatim>\<open>null\<close>; and a JSON reader that knows these three texts.
\<close>

definition issues_number_reply :: string where
  "issues_number_reply = ''{'' @ quoted ''issues'' @ '': 1}''"

definition capital_issues_reply :: string where
  "capital_issues_reply = ''{'' @ quoted ''Issues'' @ '': '' @ severity_member ''HIGH'' @ ''}''"

definition issues_null_reply :: string where
  "issues_null_reply = ''{'' @ quoted ''issues'' @ '': null}''"

definition object_json_text :: "string \<Rightarrow> string + json" where
  "object_json_text s =
     (if s = issues_number_reply then Inr (JObject [(''issues'', JNumber ''1'')])
      else if s = capital_issues_reply
        then Inr (JObject [(''Issues'', JArray [JObject [(''severity'', JString ''HIGH'')]])])
      else if s = issues_null_reply then Inr (JObject [(''issues'', JNull)])
      else Inl ''invalid character'')"

definition object_world :: "string \<Rightarrow> world" where
  "object_world reply = (example_world reply)\<lparr>json_text := object_json_text\<rparr>"

section \<open>Properties\<close>

subsection \<open>Report of an empty findings list\<close>

text \<open>
  C9, as amended. For a result with no findings the formatter writes the report header
  (title, language, analysis time, summary) and then exactly the line
  \<^verbatim>\<open>No security issues found.\<close>; no severity section follows. The rendering is therefore
  not that single line alone.
\<close>

theorem empty_report:
  assumes "Issues result = []"
  shows "FormatAsMarkdown result =
           ''# Security Analysis Report'' @ [NL, NL]
           @ ''**Language**: '' @ Language result @ [NL, NL]
           @ ''**Analysis Time**: '' @ AnalysisTime (AnalysisMetadata result) @ [NL, NL]
           @ ''## Summary'' @ [NL, NL] @ Summary result @ [NL, NL]
           @ ''No security issues found.'' @ [NL]"
  using assms by (simp add: FormatAsMarkdown_def report_header_def)

theorem empty_report_witness:
  "Issues \<lparr>Language = JAVA, Issues = [], Summary = generateSummary [],
            AnalysisMetadata = generateMetadata [] JAVA ''1s''\<rparr> = []
   \<and> FormatAsMarkdown \<lparr>Language = JAVA, Issues = [], Summary = generateSummary [],
            AnalysisMetadata = generateMetadata [] JAVA ''1s''\<rparr> =
       ''# Security Analysis Report'' @ [NL, NL]
       @ ''**Language**: java'' @ [NL, NL]
       @ ''**Analysis Time**: 1s'' @ [NL, NL]
       @ ''## Summary'' @ [NL, NL] @ ''No security issues detected.'' @ [NL, NL]
       @ ''No security issues found.'' @ [NL]"
  using empty_report [of "\<lparr>Language = JAVA, Issues = [], Summary = generateSummary [],
            AnalysisMetadata = generateMetadata [] JAVA ''1s''\<rparr>"]
  by (simp add: generateSummary_def generateMetadata_def JAVA_def)

text \<open>The claim as stated fails: the rendering of an empty result is longer than the line.\<close>

theorem empty_report_not_single_line:
  "FormatAsMarkdown \<lparr>Language = JAVA, Issues = [], Summary = generateSummary [],
            AnalysisMetadata = generateMetadata [] JAVA ''1s''\<rparr> \<noteq> ''No security issues found.''
   \<and> FormatAsMarkdown \<lparr>Language = JAVA, Issues = [], Summary = generateSummary [],
            AnalysisMetadata = generateMetadata [] JAVA ''1s''\<rparr> \<noteq> ''No security issues found.'' @ [NL]"
  by (simp add: FormatAsMarkdown_def report_header_def)

subsection \<open>Evaluating the examples\<close>

lemmas extract_defs = extractJSON_def code_block_def through_last_def TrimSpace_def
  trim_with.simps leading_of_def unicode_spaces_def is_s_def quoted_def

lemma extract_severity_member:
  "extractJSON (severity_member ''HIGH'') = severity_member ''HIGH''"
  "extractJSON (severity_member ''INFO'') = severity_member ''INFO''"
  by (simp_all add: extract_defs severity_member_def)

lemma example_json_text_simps:
  "example_json_text (severity_member ''HIGH'') = Inr (JArray [JObject [(''severity'', JString ''HIGH'')]])"
  "example_json_text (severity_member ''INFO'') = Inr (JArray [JObject [(''severity'', JString ''INFO'')]])"
  "example_json_text (''{'' @ quoted ''foo'' @ '': 1}'') = Inr (JObject [(''foo'', JNumber ''1'')])"
  by (simp_all add: example_json_text_def severity_member_def quoted_def)

lemma example_world_simps:
  "llm_analyze (example_world reply) code prompt = Inr reply"
  "json_text (example_world reply) = example_json_text"
  "json_issue_elems (example_world reply) cur vs = Inr (map example_issue vs)"
  "elapsed (example_world reply) = ''1s''"
  by (simp_all add: example_world_def)

lemma example_parse:
  "parseIssuesFromResponse (example_world r) (severity_member ''HIGH'') ''A.java''
     = Inr [zero_issue\<lparr>Severity := ''HIGH'', FilePath := ''A.java'', ID := ''ISSUE-1''\<rparr>]"
  "parseIssuesFromResponse (example_world r) (severity_member ''INFO'') ''A.java''
     = Inr [zero_issue\<lparr>Severity := ''INFO'', FilePath := ''A.java'', ID := ''ISSUE-1''\<rparr>]"
  by (simp_all add: parseIssuesFromResponse_def extract_severity_member unmarshal_issues_def
      example_world_simps example_json_text_simps example_issue_def enrich_def enrich_issue_def
      zero_issue_def show_nat.simps digit_char_def)

lemma example_high:
  "AnalyzeWithLLM (example_world (severity_member ''HIGH'')) JAVA ''class A {}'' ''A.java'' ''Analyze''
   = Inr (example_result ''HIGH'' ''Found 1 security issue(s): 0 critical, 1 high, 0 medium, 0 low.'' 1)"
  by (simp add: AnalyzeWithLLM_def example_world_simps example_parse generateSummary_def
      generateMetadata_def count_issue_def count_severity_def severity_defs zero_issue_def
      show_nat.simps digit_char_def example_result_def)

lemma example_info:
  "AnalyzeWithLLM (example_world (severity_member ''INFO'')) JAVA ''class A {}'' ''A.java'' ''Analyze''
   = Inr (example_result ''INFO'' ''Found 1 security issue(s): 0 critical, 0 high, 0 medium, 0 low.'' 0)"
  by (simp add: AnalyzeWithLLM_def example_world_simps example_parse generateSummary_def
      generateMetadata_def count_issue_def count_severity_def severity_defs zero_issue_def
      show_nat.simps digit_char_def example_result_def)

subsection \<open>Metadata counts\<close>

lemma severity_total_count_issue:
  "severity_total (count_issue m issue) =
     severity_total m + (if known_severity (Severity issue) then 1 else 0)"
  by (simp add: count_issue_def severity_total_def known_severity_def severity_defs)

lemma severity_total_foldl:
  "severity_total (foldl count_issue m issues) =
     severity_total m + length (filter (\<lambda>issue. known_severity (Severity issue)) issues)"
  by (induction issues arbitrary: m) (simp_all add: severity_total_count_issue)

lemma IssuesFound_count_issue: "IssuesFound (count_issue m issue) = IssuesFound m"
  by (simp add: count_issue_def)

lemma IssuesFound_foldl: "IssuesFound (foldl count_issue m issues) = IssuesFound m"
  by (induction issues arbitrary: m) (simp_all add: IssuesFound_count_issue)

lemma severity_total_generateMetadata:
  "severity_total (generateMetadata issues language duration) =
     length (filter (\<lambda>issue. known_severity (Severity issue)) issues)"
  by (simp add: generateMetadata_def severity_total_foldl) (simp add: severity_total_def)

lemma IssuesFound_generateMetadata:
  "IssuesFound (generateMetadata issues language duration) = length issues"
  by (simp add: generateMetadata_def IssuesFound_foldl)

lemma AnalyzeWithLLM_result:
  assumes "AnalyzeWithLLM w language code filePath prompt = Inr result"
  shows "AnalysisMetadata result = generateMetadata (Issues result) language (elapsed w)
         \<and> Summary result = generateSummary (Issues result) \<and> Language result = language"
  using assms by (auto simp: AnalyzeWithLLM_def Let_def split: sum.splits)

text \<open>
  C1, as amended. In every result of the pipeline the four per-severity counts sum to
  the number of findings whose severity is one of the four known levels, and the total
  count is the length of the findings sequence; so the four counts sum to that length
  when every finding carries a known severity.
\<close>

theorem metadata_counts_known_severities:
  assumes "AnalyzeWithLLM w language code filePath prompt = Inr result"
  shows "severity_total (AnalysisMetadata result) =
           length (filter (\<lambda>issue. known_severity (Severity issue)) (Issues result))
         \<and> IssuesFound (AnalysisMetadata result) = length (Issues result)
         \<and> ((\<forall>issue \<in> set (Issues result). known_severity (Severity issue)) \<longrightarrow>
              severity_total (AnalysisMetadata result) = length (Issues result))"
proof -
  have m: "AnalysisMetadata result = generateMetadata (Issues result) language (elapsed w)"
    using AnalyzeWithLLM_result [OF assms] by simp
  have total: "severity_total (AnalysisMetadata result) =
           length (filter (\<lambda>issue. known_severity (Severity issue)) (Issues result))"
    by (simp add: m severity_total_generateMetadata)
  have found: "IssuesFound (AnalysisMetadata result) = length (Issues result)"
    by (simp add: m IssuesFound_generateMetadata)
  have "(\<forall>issue \<in> set (Issues result). known_severity (Severity issue)) \<longrightarrow>
          filter (\<lambda>issue. known_severity (Severity issue)) (Issues result) = Issues result"
    by simp
  with total found show ?thesis by simp
qed

theorem metadata_counts_known_severities_witness:
  "AnalyzeWithLLM (example_world (severity_member ''HIGH'')) JAVA ''class A {}'' ''A.java'' ''Analyze''
     = Inr (example_result ''HIGH'' ''Found 1 security issue(s): 0 critical, 1 high, 0 medium, 0 low.'' 1)
   \<and> known_severity ''HIGH''
   \<and> severity_total (AnalysisMetadata
         (example_result ''HIGH'' ''Found 1 security issue(s): 0 critical, 1 high, 0 medium, 0 low.'' 1)) = 1
   \<and> length (Issues
         (example_result ''HIGH'' ''Found 1 security issue(s): 0 critical, 1 high, 0 medium, 0 low.'' 1)) = 1"
  using metadata_counts_known_severities [OF example_high] example_high
  by (simp add: example_result_def known_severity_def severity_defs zero_issue_def)

text \<open>
  The claim as stated fails: a reply with one finding of severity \<^verbatim>\<open>INFO\<close> is decoded
  and passes through the pipeline, and its four counts sum to 0, not to 1.
\<close>

theorem unknown_severity_not_counted:
  "AnalyzeWithLLM (example_world (severity_member ''INFO'')) JAVA ''class A {}'' ''A.java'' ''Analyze''
     = Inr (example_result ''INFO'' ''Found 1 security issue(s): 0 critical, 0 high, 0 medium, 0 low.'' 0)
   \<and> length (Issues
         (example_result ''INFO'' ''Found 1 security issue(s): 0 critical, 0 high, 0 medium, 0 low.'' 0)) = 1
   \<and> severity_total (AnalysisMetadata
         (example_result ''INFO'' ''Found 1 security issue(s): 0 critical, 0 high, 0 medium, 0 low.'' 0)) = 0"
  by (simp add: example_info) (simp add: example_result_def severity_total_def)

subsection \<open>Tool handlers\<close>

text \<open>
  C6. When the \<^verbatim>\<open>code\<close> argument of \<^verbatim>\<open>analyze_security\<close> is absent, is not a string or
  is the empty string, all the handler does is print one error response with code
  -32602: it calls neither the classifier nor the backend. (The server structure is
  never assigned to by a handler, so there is no state to change.)
\<close>

theorem invalid_code_rejected_first:
  assumes "\<And>s. args ''code'' = Some (JString s) \<Longrightarrow> s = []"
  shows "handleAnalyzeSecurity w requestID args =
           [Printed \<lparr>JSONRPC = ''2.0'', ResponseID = requestID, Result = None,
                     Error = Some \<lparr>Code = - 32602,
                                   Message = ''Missing or invalid 'code' parameter''\<rparr>\<rparr>]"
proof (cases "args ''code''")
  case None
  then show ?thesis
    by (simp add: handleAnalyzeSecurity_def as_string_def sendError_def)
next
  case (Some v)
  with assms show ?thesis
    by (cases v) (simp_all add: handleAnalyzeSecurity_def as_string_def sendError_def)
qed

theorem invalid_code_rejected_first_witness:
  "handleAnalyzeSecurity (example_world (severity_member ''HIGH'')) (JNumber ''7'') Map.empty =
     [Printed \<lparr>JSONRPC = ''2.0'', ResponseID = JNumber ''7'', Result = None,
               Error = Some \<lparr>Code = - 32602, Message = ''Missing or invalid 'code' parameter''\<rparr>\<rparr>]
   \<and> handleAnalyzeSecurity (example_world (severity_member ''HIGH'')) (JNumber ''7'')
        [''code'' \<mapsto> JNumber ''5'', ''file_path'' \<mapsto> JString ''A.java''] =
     [Printed \<lparr>JSONRPC = ''2.0'', ResponseID = JNumber ''7'', Result = None,
               Error = Some \<lparr>Code = - 32602, Message = ''Missing or invalid 'code' parameter''\<rparr>\<rparr>]
   \<and> handleAnalyzeSecurity (example_world (severity_member ''HIGH'')) (JNumber ''7'')
        [''code'' \<mapsto> JString [], ''language'' \<mapsto> JString ''java''] =
     [Printed \<lparr>JSONRPC = ''2.0'', ResponseID = JNumber ''7'', Result = None,
               Error = Some \<lparr>Code = - 32602, Message = ''Missing or invalid 'code' parameter''\<rparr>\<rparr>]"
  using invalid_code_rejected_first [of Map.empty "example_world (severity_member ''HIGH'')" "JNumber ''7''"]
    invalid_code_rejected_first [of "[''code'' \<mapsto> JNumber ''5'', ''file_path'' \<mapsto> JString ''A.java'']"
      "example_world (severity_member ''HIGH'')" "JNumber ''7''"]
    invalid_code_rejected_first [of "[''code'' \<mapsto> JString [], ''language'' \<mapsto> JString ''java'']"
      "example_world (severity_member ''HIGH'')" "JNumber ''7''"]
  by simp

text \<open>For contrast, a call with code does reach the classifier and the backend.\<close>

lemma valid_code_reaches_backend:
  "handleAnalyzeSecurity (example_world (severity_member ''HIGH'')) (JNumber ''7'')
        [''code'' \<mapsto> JString ''class A {}'', ''file_path'' \<mapsto> JString ''A.java''] =
     [DetectCall ''class A {}'' ''A.java'',
      BackendCall ''class A {}'' ''Analyze'',
      Printed \<lparr>JSONRPC = ''2.0'', ResponseID = JNumber ''7'',
        Result = Some (text_content (FormatAsMarkdown
          (example_result ''HIGH'' ''Found 1 security issue(s): 0 critical, 1 high, 0 medium, 0 low.'' 1))),
        Error = None\<rparr>]"
proof -
  have d: "Detect o1 o2 ''class A {}'' ''A.java'' = JAVA" for o1 o2
    by (simp add: Detect_def DetectFromExtension_def Ext_def ToLower_def lower_char_def language_defs)
  have p: "PreprocessCode ''class A {}'' JAVA = ''class A {}''"
    by (simp add: PreprocessCode_def removeComments_def)
  have r: "rules_prompt (example_world (severity_member ''HIGH'')) JAVA = ''Analyze''"
    by (simp add: example_world_def)
  have a: "analyzers JAVA = Some JAVA"
    by (simp add: analyzers_def language_defs)
  show ?thesis
    by (simp add: handleAnalyzeSecurity_def as_string_def d a p r Analyze_def example_high
        sendResponse_def)
qed


subsection \<open>A reply that is an object without an issues member\<close>

lemma wrapper_fields_null_only:
  assumes "\<forall>(key, v) \<in> set kvs. key_matches ''issues'' key \<longrightarrow> v = JNull"
  shows "wrapper_fields w [] kvs = Some []"
  using assms by (induction kvs) auto

lemma object_reply_extracted:
  "extractJSON issues_number_reply = issues_number_reply"
  "extractJSON capital_issues_reply = capital_issues_reply"
  "extractJSON issues_null_reply = issues_null_reply"
  by (simp_all add: extract_defs issues_number_reply_def capital_issues_reply_def
      issues_null_reply_def severity_member_def)

lemma object_json_text_simps:
  "object_json_text issues_number_reply = Inr (JObject [(''issues'', JNumber ''1'')])"
  "object_json_text capital_issues_reply =
     Inr (JObject [(''Issues'', JArray [JObject [(''severity'', JString ''HIGH'')]])])"
  "object_json_text issues_null_reply = Inr (JObject [(''issues'', JNull)])"
  by (simp_all add: object_json_text_def issues_number_reply_def capital_issues_reply_def
      issues_null_reply_def severity_member_def quoted_def)

lemma object_world_simps:
  "llm_analyze (object_world reply) code prompt = Inr reply"
  "json_text (object_world reply) = object_json_text"
  "json_issue_elems (object_world reply) cur vs = Inr (map example_issue vs)"
  "elapsed (object_world reply) = ''1s''"
  by (simp_all add: object_world_def example_world_def)

lemma issues_key_matches:
  "key_matches ''issues'' ''issues''" "key_matches ''issues'' ''Issues''"
  "\<not> key_matches ''issues'' ''foo''"
  by (simp_all add: key_matches_def upper_char_def)

text \<open>
  C10, as amended. When the text extracted from the reply is a JSON object in which
  every member whose key matches \<^verbatim>\<open>issues\<close> (as the decoder matches keys, that is
  ignoring case) is \<^verbatim>\<open>null\<close>, and in particular when it has no such member,
  \<^verbatim>\<open>parseIssuesFromResponse\<close> succeeds with no findings: decoding into the slice fails,
  decoding into the wrapper succeeds and leaves its field nil. The pipeline then
  returns a result without findings whose summary is \<^verbatim>\<open>No security issues detected.\<close>
\<close>

theorem object_without_issues_is_empty:
  assumes "json_text w (extractJSON response) = Inr (JObject kvs)"
    and "\<forall>(key, v) \<in> set kvs. key_matches ''issues'' key \<longrightarrow> v = JNull"
    and "llm_analyze w (PreprocessCode code language) prompt = Inr response"
  shows "parseIssuesFromResponse w response filePath = Inr []
         \<and> AnalyzeWithLLM w language code filePath prompt =
             Inr \<lparr>Language = language, Issues = [], Summary = ''No security issues detected.'',
                  AnalysisMetadata = generateMetadata [] language (elapsed w)\<rparr>"
proof -
  have first: "unmarshal_issues w (extractJSON response) = Inl (type_error ''object'')"
    using assms(1) by (simp add: unmarshal_issues_def)
  have second: "unmarshal_wrapper w (extractJSON response) = Some []"
    using assms(1) wrapper_fields_null_only [OF assms(2)] by (simp add: unmarshal_wrapper_def)
  have parse: "parseIssuesFromResponse w response filePath = Inr []"
    by (simp add: parseIssuesFromResponse_def first second enrich_def)
  then show ?thesis
    using assms(3) by (simp add: AnalyzeWithLLM_def generateSummary_def)
qed

theorem object_without_issues_is_empty_witness:
  "json_text (example_world (''{'' @ quoted ''foo'' @ '': 1}''))
       (extractJSON (''{'' @ quoted ''foo'' @ '': 1}'')) = Inr (JObject [(''foo'', JNumber ''1'')])
   \<and> \<not> key_matches ''issues'' ''foo''
   \<and> parseIssuesFromResponse (example_world (''{'' @ quoted ''foo'' @ '': 1}''))
        (''{'' @ quoted ''foo'' @ '': 1}'') ''A.java'' = Inr []
   \<and> AnalyzeWithLLM (example_world (''{'' @ quoted ''foo'' @ '': 1}'')) JAVA ''class A {}'' ''A.java''
        ''Analyze'' =
       Inr \<lparr>Language = JAVA, Issues = [], Summary = ''No security issues detected.'',
            AnalysisMetadata = generateMetadata [] JAVA ''1s''\<rparr>
   \<and> json_text (object_world issues_null_reply) (extractJSON issues_null_reply)
       = Inr (JObject [(''issues'', JNull)])
   \<and> key_matches ''issues'' ''issues''
   \<and> parseIssuesFromResponse (object_world issues_null_reply) issues_null_reply ''A.java'' = Inr []
   \<and> AnalyzeWithLLM (object_world issues_null_reply) JAVA ''class A {}'' ''A.java'' ''Analyze'' =
       Inr \<lparr>Language = JAVA, Issues = [], Summary = ''No security issues detected.'',
            AnalysisMetadata = generateMetadata [] JAVA ''1s''\<rparr>"
proof -
  have x: "extractJSON (''{'' @ quoted ''foo'' @ '': 1}'') = ''{'' @ quoted ''foo'' @ '': 1}''"
    by (simp add: extract_defs)
  have t: "json_text (example_world (''{'' @ quoted ''foo'' @ '': 1}''))
       (extractJSON (''{'' @ quoted ''foo'' @ '': 1}'')) = Inr (JObject [(''foo'', JNumber ''1'')])"
    by (simp only: x example_world_simps example_json_text_simps)
  have k: "\<forall>(key, v) \<in> set [(''foo'', JNumber ''1'')]. key_matches ''issues'' key \<longrightarrow> v = JNull"
    by (simp add: issues_key_matches)
  have l: "llm_analyze (example_world (''{'' @ quoted ''foo'' @ '': 1}''))
       (PreprocessCode ''class A {}'' JAVA) ''Analyze'' = Inr (''{'' @ quoted ''foo'' @ '': 1}'')"
    by (simp only: example_world_simps)
  have t': "json_text (object_world issues_null_reply) (extractJSON issues_null_reply)
       = Inr (JObject [(''issues'', JNull)])"
    by (simp only: object_reply_extracted object_world_simps object_json_text_simps)
  have k': "\<forall>(key, v) \<in> set [(''issues'', JNull)]. key_matches ''issues'' key \<longrightarrow> v = JNull"
    by simp
  have l': "llm_analyze (object_world issues_null_reply)
       (PreprocessCode ''class A {}'' JAVA) ''Analyze'' = Inr issues_null_reply"
    by (simp only: object_world_simps)
  show ?thesis
    using object_without_issues_is_empty [OF t k l, of "''A.java''"]
      object_without_issues_is_empty [OF t' k' l', of "''A.java''"] t t'
    by (simp add: example_world_simps object_world_simps issues_key_matches)
qed

text \<open>
  The claim as stated fails. A reply \<^verbatim>\<open>{"issues": 1}\<close> is a JSON object that holds no
  \<^verbatim>\<open>issues\<close> array, yet neither decoding succeeds and \<^verbatim>\<open>parseIssuesFromResponse\<close> returns
  the ``failed to parse issues'' error, which fails the pipeline. A reply
  \<^verbatim>\<open>{"Issues": [{"severity":"HIGH"}]}\<close> holds no member named \<^verbatim>\<open>issues\<close>, yet the decoder
  matches the key ignoring case and one finding is returned.
\<close>

theorem object_with_issues_member_not_empty:
  "parseIssuesFromResponse (object_world issues_number_reply) issues_number_reply ''A.java''
     = Inl (''failed to parse issues: '' @ type_error ''object'')
   \<and> AnalyzeWithLLM (object_world issues_number_reply) JAVA ''class A {}'' ''A.java'' ''Analyze''
     = Inl (''failed to parse LLM response: failed to parse issues: '' @ type_error ''object'')
   \<and> parseIssuesFromResponse (object_world capital_issues_reply) capital_issues_reply ''A.java''
     = Inr [zero_issue\<lparr>Severity := ''HIGH'', FilePath := ''A.java'', ID := ''ISSUE-1''\<rparr>]"
proof -
  have number: "parseIssuesFromResponse (object_world issues_number_reply) issues_number_reply ''A.java''
     = Inl (''failed to parse issues: '' @ type_error ''object'')"
    by (simp add: parseIssuesFromResponse_def object_reply_extracted unmarshal_issues_def
        unmarshal_wrapper_def object_world_simps object_json_text_simps issues_key_matches)
  have capital: "parseIssuesFromResponse (object_world capital_issues_reply) capital_issues_reply ''A.java''
     = Inr [zero_issue\<lparr>Severity := ''HIGH'', FilePath := ''A.java'', ID := ''ISSUE-1''\<rparr>]"
    by (simp add: parseIssuesFromResponse_def object_reply_extracted unmarshal_issues_def
        unmarshal_wrapper_def object_world_simps object_json_text_simps issues_key_matches
        example_issue_def enrich_def enrich_issue_def zero_issue_def show_nat.simps digit_char_def)
  have "AnalyzeWithLLM (object_world issues_number_reply) JAVA ''class A {}'' ''A.java'' ''Analyze''
     = Inl (''failed to parse LLM response: failed to parse issues: '' @ type_error ''object'')"
    by (simp add: AnalyzeWithLLM_def object_world_simps number)
  with number capital show ?thesis by simp
qed

subsection \<open>Content stage\<close>

lemma inner_fold_scored:
  assumes "scored_by_match code sc" and "patterns lang = Some ps" and "set qs \<subseteq> set ps"
  shows "scored_by_match code
           (foldl (\<lambda>sc pattern. if MatchString pattern code then bump sc lang else sc) sc qs)"
  using assms
proof (induction qs arbitrary: sc)
  case Nil
  then show ?case by simp
next
  case (Cons q qs)
  show ?case
  proof (cases "MatchString q code")
    case True
    from Cons.prems have "q \<in> set ps" by simp
    with True Cons.prems(2) have "0 < match_count lang code"
      by (auto simp: match_count_def filter_empty_conv)
    with Cons.prems(1) have "scored_by_match code (bump sc lang)"
      by (simp add: scored_by_match_def bump_def)
    with Cons True show ?thesis by simp
  next
    case False
    with Cons show ?thesis by simp
  qed
qed

lemma score_lang_scored:
  "scored_by_match code sc \<Longrightarrow> scored_by_match code (score_lang code sc lang)"
  by (cases "patterns lang") (simp_all add: score_lang_def inner_fold_scored)

lemma foldl_score_lang_scored:
  "scored_by_match code sc \<Longrightarrow> scored_by_match code (foldl (score_lang code) sc keys)"
  by (induction keys arbitrary: sc) (simp_all add: score_lang_scored)

lemma compute_scores_scored: "scored_by_match code (compute_scores pattern_keys code)"
  unfolding compute_scores_def
  by (rule foldl_score_lang_scored) (simp add: scored_by_match_def)

lemma pick_step_cases:
  "pick_step scores best lang = best \<or> (snd (pick_step scores best lang) = lang \<and> scores lang \<noteq> None)"
  by (cases "scores lang") (simp_all add: pick_step_def)

lemma foldl_pick_step:
  "snd best = UNKNOWN \<or> scores (snd best) \<noteq> None \<Longrightarrow>
   snd (foldl (pick_step scores) best keys) = UNKNOWN
   \<or> scores (snd (foldl (pick_step scores) best keys)) \<noteq> None"
proof (induction keys arbitrary: best)
  case Nil
  then show ?case by simp
next
  case (Cons k keys)
  from pick_step_cases [of scores best k] Cons.prems
  have "snd (pick_step scores best k) = UNKNOWN \<or> scores (snd (pick_step scores best k)) \<noteq> None"
    by auto
  from Cons.IH [OF this] show ?case by simp
qed

lemma DetectFromContent_scored:
  assumes "DetectFromContent pattern_keys score_keys code \<noteq> UNKNOWN"
  shows "0 < match_count (DetectFromContent pattern_keys score_keys code) code"
proof -
  let ?scores = "compute_scores pattern_keys code"
  have "snd (foldl (pick_step ?scores) (0, UNKNOWN) score_keys) = UNKNOWN
        \<or> ?scores (snd (foldl (pick_step ?scores) (0, UNKNOWN) score_keys)) \<noteq> None"
    by (rule foldl_pick_step) simp
  with assms obtain n where "?scores (DetectFromContent pattern_keys score_keys code) = Some n"
    by (auto simp: DetectFromContent_def)
  with compute_scores_scored [of code pattern_keys] show ?thesis
    by (simp add: scored_by_match_def)
qed

text \<open>
  C5. Whatever the order of the two map loops: if no signature of any language matches
  the code, the content stage returns \<^verbatim>\<open>unknown\<close>; and a tag it returns other than
  \<^verbatim>\<open>unknown\<close> belongs to a language with at least one matching signature.
\<close>

theorem content_stage_needs_a_match:
  "((\<forall>lang. match_count lang code = 0) \<longrightarrow>
      DetectFromContent pattern_keys score_keys code = UNKNOWN)
   \<and> (DetectFromContent pattern_keys score_keys code \<noteq> UNKNOWN \<longrightarrow>
      0 < match_count (DetectFromContent pattern_keys score_keys code) code)"
proof (intro conjI impI)
  assume none: "\<forall>lang. match_count lang code = 0"
  show "DetectFromContent pattern_keys score_keys code = UNKNOWN"
  proof (rule ccontr)
    assume "DetectFromContent pattern_keys score_keys code \<noteq> UNKNOWN"
    from DetectFromContent_scored [OF this] none show False by simp
  qed
next
  assume "DetectFromContent pattern_keys score_keys code \<noteq> UNKNOWN"
  then show "0 < match_count (DetectFromContent pattern_keys score_keys code) code"
    by (rule DetectFromContent_scored)
qed

lemma patterns_cases:
  "patterns lang = None \<or> patterns lang = Some java_patterns \<or> patterns lang = Some csharp_patterns
   \<or> patterns lang = Some react_typescript_patterns \<or> patterns lang = Some react_javascript_patterns"
  by (simp add: patterns_def)

lemma unknown_test_code_no_match: "match_count lang unknown_test_code = 0"
proof -
  have "filter (\<lambda>pattern. MatchString pattern unknown_test_code) java_patterns = []"
    by code_simp
  moreover have "filter (\<lambda>pattern. MatchString pattern unknown_test_code) csharp_patterns = []"
    by code_simp
  moreover have "filter (\<lambda>pattern. MatchString pattern unknown_test_code) react_typescript_patterns = []"
    by code_simp
  moreover have "filter (\<lambda>pattern. MatchString pattern unknown_test_code) react_javascript_patterns = []"
    by code_simp
  ultimately show ?thesis
    using patterns_cases [of lang] by (auto simp: match_count_def)
qed

lemma tsx_test_code_counts:
  "match_count JAVA tsx_test_code = 0"
  "match_count CSHARP tsx_test_code = 0"
  "match_count REACT_TYPESCRIPT tsx_test_code = 2"
  "match_count REACT_JAVASCRIPT tsx_test_code = 2"
  by code_simp+

text \<open>The scores that the first loop leaves, in terms of the match counts.\<close>

lemma inner_fold_count:
  "foldl (\<lambda>sc pattern. if MatchString pattern code then bump sc lang else sc) sc ps =
     (if filter (\<lambda>pattern. MatchString pattern code) ps = [] then sc
      else sc(lang \<mapsto> (case sc lang of None \<Rightarrow> 0 | Some n \<Rightarrow> n)
                      + length (filter (\<lambda>pattern. MatchString pattern code) ps)))"
proof (induction ps arbitrary: sc)
  case Nil
  then show ?case by simp
next
  case (Cons p ps)
  then show ?case by (auto simp: bump_def split: option.splits)
qed

lemma patterns_known:
  "patterns JAVA = Some java_patterns" "patterns CSHARP = Some csharp_patterns"
  "patterns REACT_TYPESCRIPT = Some react_typescript_patterns"
  "patterns REACT_JAVASCRIPT = Some react_javascript_patterns"
  by (simp_all add: patterns_def language_defs)

lemma score_lang_known:
  assumes "patterns lang \<noteq> None"
  shows "score_lang code sc lang =
     (if match_count lang code = 0 then sc
      else sc(lang \<mapsto> (case sc lang of None \<Rightarrow> 0 | Some n \<Rightarrow> n) + match_count lang code))"
  using assms by (auto simp: score_lang_def match_count_def inner_fold_count)

lemma tsx_test_code_scores:
  "compute_scores pattern_keys0 tsx_test_code = [REACT_TYPESCRIPT \<mapsto> 2, REACT_JAVASCRIPT \<mapsto> 2]"
  by (simp add: compute_scores_def pattern_keys0_def score_lang_known patterns_known
      tsx_test_code_counts) (simp add: language_defs numeral_2_eq_2)

lemma tsx_test_code_verdicts:
  "DetectFromContent pattern_keys0 [REACT_TYPESCRIPT, REACT_JAVASCRIPT] tsx_test_code = REACT_TYPESCRIPT"
  "DetectFromContent pattern_keys0 [REACT_JAVASCRIPT, REACT_TYPESCRIPT] tsx_test_code = REACT_JAVASCRIPT"
  by (simp_all add: DetectFromContent_def tsx_test_code_scores pick_step_def language_defs)

theorem content_stage_needs_a_match_witness:
  "(\<forall>lang. match_count lang unknown_test_code = 0)
   \<and> DetectFromContent pattern_keys0 [] unknown_test_code = UNKNOWN
   \<and> DetectFromContent pattern_keys0 [REACT_TYPESCRIPT, REACT_JAVASCRIPT] tsx_test_code \<noteq> UNKNOWN
   \<and> 0 < match_count (DetectFromContent pattern_keys0 [REACT_TYPESCRIPT, REACT_JAVASCRIPT] tsx_test_code)
         tsx_test_code"
  using content_stage_needs_a_match [of unknown_test_code pattern_keys0 "[]"]
    content_stage_needs_a_match [of tsx_test_code pattern_keys0 "[REACT_TYPESCRIPT, REACT_JAVASCRIPT]"]
    unknown_test_code_no_match
  by (simp add: tsx_test_code_verdicts) (simp add: language_defs)

subsection \<open>Classification by extension\<close>



lemma extension_examples:
  "ToLower (Ext ''src/Main.JAVA'') = ''.java''"
  "ToLower (Ext ''Test.cs'') = ''.cs''"
  "ToLower (Ext ''Component.tsx'') = ''.tsx''"
  "DetectFromExtension ''Component.tsx'' = REACT_TYPESCRIPT"
  by (simp_all add: DetectFromExtension_def Ext_def ToLower_def lower_char_def)


subsection \<open>Ties in the content stage\<close>

lemma map_order_patterns: "map_order patterns pattern_keys0"
  by (auto simp: map_order_def patterns_def pattern_keys0_def language_defs)

lemma map_order_examples:
  "map_order (compute_scores pattern_keys0 tsx_test_code) [REACT_TYPESCRIPT, REACT_JAVASCRIPT]"
  "map_order (compute_scores pattern_keys0 tsx_test_code) [REACT_JAVASCRIPT, REACT_TYPESCRIPT]"
  by (auto simp: map_order_def tsx_test_code_scores language_defs)

text \<open>
  C3 fails on the code. On the code body of the repository's own test, the two React
  languages tie with two matching signatures each; both orders of the loop over the
  score map are orders that Go may take, and the content stage returns
  \<^verbatim>\<open>react_typescript\<close> under one and \<^verbatim>\<open>react_javascript\<close> under the other. With the
  path \<^verbatim>\<open>Component.tsx\<close>, for which the test expects \<^verbatim>\<open>react_typescript\<close>, \<^verbatim>\<open>Detect\<close> can so
  return \<^verbatim>\<open>react_javascript\<close>.
\<close>

theorem content_stage_tie_follows_map_order:
  "map_order patterns pattern_keys0
   \<and> map_order (compute_scores pattern_keys0 tsx_test_code) [REACT_TYPESCRIPT, REACT_JAVASCRIPT]
   \<and> map_order (compute_scores pattern_keys0 tsx_test_code) [REACT_JAVASCRIPT, REACT_TYPESCRIPT]
   \<and> compute_scores pattern_keys0 tsx_test_code REACT_TYPESCRIPT = Some 2
   \<and> compute_scores pattern_keys0 tsx_test_code REACT_JAVASCRIPT = Some 2
   \<and> DetectFromContent pattern_keys0 [REACT_TYPESCRIPT, REACT_JAVASCRIPT] tsx_test_code = REACT_TYPESCRIPT
   \<and> DetectFromContent pattern_keys0 [REACT_JAVASCRIPT, REACT_TYPESCRIPT] tsx_test_code = REACT_JAVASCRIPT
   \<and> REACT_TYPESCRIPT \<noteq> REACT_JAVASCRIPT
   \<and> Detect (pattern_keys0, [REACT_JAVASCRIPT, REACT_TYPESCRIPT])
         (pattern_keys0, [REACT_JAVASCRIPT, REACT_TYPESCRIPT]) tsx_test_code ''Component.tsx''
       = REACT_JAVASCRIPT"
proof -
  have "Detect (pattern_keys0, [REACT_JAVASCRIPT, REACT_TYPESCRIPT])
         (pattern_keys0, [REACT_JAVASCRIPT, REACT_TYPESCRIPT]) tsx_test_code ''Component.tsx''
       = REACT_JAVASCRIPT"
    by (simp add: Detect_def extension_examples tsx_test_code_verdicts)
  moreover have "compute_scores pattern_keys0 tsx_test_code REACT_TYPESCRIPT = Some 2"
    and "compute_scores pattern_keys0 tsx_test_code REACT_JAVASCRIPT = Some 2"
    by (simp_all add: tsx_test_code_scores language_defs)
  moreover have "REACT_TYPESCRIPT \<noteq> REACT_JAVASCRIPT"
    by (simp add: language_defs)
  ultimately show ?thesis
    using map_order_patterns map_order_examples tsx_test_code_verdicts by blast
qed

subsection \<open>Preprocessor\<close>

text \<open>
  C2 fails on the code. A block comment that spans two lines is deleted together with
  the newline inside it: for Java, \<^verbatim>\<open>a/*\<close>, newline, \<^verbatim>\<open>*/b\<close> becomes \<^verbatim>\<open>ab\<close>, one newline
  fewer than the input.
\<close>

theorem block_comment_drops_newline:
  "PreprocessCode (''a/*'' @ [CHR 0x0A] @ ''*/b'') JAVA = ''ab''
   \<and> count_newlines (''a/*'' @ [CHR 0x0A] @ ''*/b'') = 1
   \<and> count_newlines (PreprocessCode (''a/*'' @ [CHR 0x0A] @ ''*/b'') JAVA) = 0"
  by (simp add: PreprocessCode_def removeComments_def count_newlines_def)

text \<open>What does hold: line comments keep every newline, and a language without a
  comment rule passes through unchanged.\<close>

lemma starts_with_two:
  "starts_with [a, b] s = (\<exists>rest. s = a # b # rest)"
proof (cases s)
  case Nil
  then show ?thesis by simp
next
  case (Cons c cs)
  then show ?thesis by (cases cs) auto
qed

lemma filter_dropWhile_newline:
  "filter (\<lambda>c. c = CHR 0x0A) (dropWhile (\<lambda>x. x \<noteq> CHR 0x0A) s) = filter (\<lambda>c. c = CHR 0x0A) s"
  by (induction s) auto

lemma strip_line_comments_newlines:
  "count_newlines (strip_line_comments s) = count_newlines s"
proof (induction s rule: strip_line_comments.induct)
  case 1
  then show ?case by simp
next
  case (2 c cs)
  show ?case
  proof (cases "starts_with ''//'' (c # cs)")
    case True
    then obtain rest where cs: "c # cs = CHR ''/'' # CHR ''/'' # rest"
      unfolding starts_with_two by blast
    have "strip_line_comments (c # cs) =
        strip_line_comments (dropWhile (\<lambda>x. x \<noteq> CHR 0x0A) (drop 2 (c # cs)))"
      using True by (simp only: strip_line_comments.simps if_True)
    then have "count_newlines (strip_line_comments (c # cs)) =
        count_newlines (dropWhile (\<lambda>x. x \<noteq> CHR 0x0A) (drop 2 (c # cs)))"
      using 2(1) [OF True] by simp
    also have "\<dots> = count_newlines (c # cs)"
      unfolding cs by (simp add: count_newlines_def filter_dropWhile_newline)
    finally show ?thesis .
  next
    case False
    have "strip_line_comments (c # cs) = c # strip_line_comments cs"
      using False by (simp only: strip_line_comments.simps if_False)
    with 2(2) [OF False] show ?thesis by (simp add: count_newlines_def)
  qed
qed

lemma other_language_unchanged:
  assumes "language \<noteq> JAVA" "language \<noteq> CSHARP" "language \<noteq> REACT_TYPESCRIPT"
    "language \<noteq> REACT_JAVASCRIPT"
  shows "PreprocessCode code language = code"
  using assms by (simp add: PreprocessCode_def)

subsection \<open>Response extractor\<close>

lemma starts_with_three:
  "starts_with [a, b, c] s = (\<exists>rest. s = a # b # c # rest)"
proof (cases s)
  case Nil
  then show ?thesis by simp
next
  case (Cons x xs)
  show ?thesis
  proof (cases xs)
    case Nil
    with Cons show ?thesis by simp
  next
    case (Cons y ys)
    with \<open>s = x # xs\<close> show ?thesis by (cases ys) auto
  qed
qed

lemma split_first_None_Cons:
  "split_first p (c # cs) = None \<longleftrightarrow> \<not> starts_with p (c # cs) \<and> split_first p cs = None"
  by (simp split: prod.splits)

lemma fence_not_across:
  assumes "\<not> starts_with ''```'' (c # cs)"
    and "last (c # cs) \<noteq> CHR 0x60 \<or> v = [] \<or> hd v \<noteq> CHR 0x60"
  shows "\<not> starts_with ''```'' (c # cs @ v)"
proof
  assume "starts_with ''```'' (c # cs @ v)"
  then obtain rest where r: "c # cs @ v = CHR 0x60 # CHR 0x60 # CHR 0x60 # rest"
    unfolding starts_with_three by blast
  show False
  proof (cases cs)
    case Nil
    with r assms(2) show False by (cases v) auto
  next
    case (Cons d ds)
    show False
    proof (cases ds)
      case Nil
      with Cons r assms(2) show False by (cases v) auto
    next
      case (Cons e es)
      with \<open>cs = d # ds\<close> r have "starts_with ''```'' (c # cs)" by simp
      with assms(1) show False by blast
    qed
  qed
qed

lemma no_fence_append:
  assumes "split_first ''```'' u = None" and "split_first ''```'' v = None"
    and "u = [] \<or> last u \<noteq> CHR 0x60 \<or> v = [] \<or> hd v \<noteq> CHR 0x60"
  shows "split_first ''```'' (u @ v) = None"
  using assms
proof (induction u)
  case Nil
  then show ?case by simp
next
  case (Cons c cs)
  from Cons.prems(1) have nf: "\<not> starts_with ''```'' (c # cs)"
    and rest: "split_first ''```'' cs = None"
    unfolding split_first_None_Cons by simp_all
  from Cons.prems(3) have "last (c # cs) \<noteq> CHR 0x60 \<or> v = [] \<or> hd v \<noteq> CHR 0x60"
    by simp
  from fence_not_across [OF nf this] have 1: "\<not> starts_with ''```'' ((c # cs) @ v)"
    by simp
  from Cons.prems(3) have "cs = [] \<or> last cs \<noteq> CHR 0x60 \<or> v = [] \<or> hd v \<noteq> CHR 0x60"
    by (auto split: if_splits)
  from Cons.IH [OF rest Cons.prems(2) this] have 2: "split_first ''```'' (cs @ v) = None" .
  from 1 2 show ?case
    unfolding append_Cons split_first_None_Cons by simp
qed

lemma split_first_at_fence:
  assumes "split_first ''```'' u = None" and "u = [] \<or> last u \<noteq> CHR 0x60"
  shows "split_first ''```'' (u @ ''```'' @ w) = Some (u, w)"
  using assms
proof (induction u)
  case Nil
  then show ?case by simp
next
  case (Cons c cs)
  from Cons.prems(1) have nf: "\<not> starts_with ''```'' (c # cs)"
    and rest: "split_first ''```'' cs = None"
    unfolding split_first_None_Cons by simp_all
  from Cons.prems(2) have "last (c # cs) \<noteq> CHR 0x60 \<or> ''```'' @ w = [] \<or> hd (''```'' @ w) \<noteq> CHR 0x60"
    by simp
  from fence_not_across [OF nf this] have 1: "\<not> starts_with ''```'' (c # cs @ ''```'' @ w)" .
  from Cons.prems(2) have "cs = [] \<or> last cs \<noteq> CHR 0x60"
    by (auto split: if_splits)
  from Cons.IH [OF rest this] have 2: "split_first ''```'' (cs @ ''```'' @ w) = Some (cs, w)" .
  have "split_first ''```'' (c # cs @ ''```'' @ w) =
          map_option (\<lambda>(before, after). (c # before, after)) (split_first ''```'' (cs @ ''```'' @ w))"
    using 1 by (simp only: split_first.simps if_False)
  with 2 show ?case by simp
qed

lemma trim_with_none: "leading_of sps s = None \<Longrightarrow> trim_with sps s = s"
  by (subst trim_with.simps) simp

lemma leading_of_brackets:
  "leading_of unicode_spaces (CHR ''['' # s) = None"
  "leading_of (map rev unicode_spaces) (CHR '']'' # s) = None"
  by (simp_all add: leading_of_def unicode_spaces_def)

lemma leading_of_newline:
  "leading_of (map rev unicode_spaces) (CHR 0x0A # s) = Some [CHR 0x0A]"
  by (simp add: leading_of_def unicode_spaces_def)

lemma TrimSpace_array:
  "TrimSpace (CHR ''['' # body @ '']'') = CHR ''['' # body @ '']''"
  by (simp add: TrimSpace_def trim_with_none leading_of_brackets)

lemma TrimSpace_array_newline:
  "TrimSpace (CHR ''['' # body @ [CHR '']'', CHR 0x0A]) = CHR ''['' # body @ '']''"
proof -
  have "trim_with (map rev unicode_spaces) (CHR 0x0A # CHR '']'' # rev body @ ''['')
          = CHR '']'' # rev body @ ''[''"
    by (subst trim_with.simps) (simp add: leading_of_newline trim_with_none leading_of_brackets)
  then show ?thesis
    by (simp add: TrimSpace_def trim_with_none leading_of_brackets)
qed

lemma json_span_skip:
  "CHR ''['' \<notin> set p \<Longrightarrow> CHR ''{'' \<notin> set p \<Longrightarrow> json_span (p @ s) = json_span s"
  by (induction p) auto

lemma json_span_array:
  assumes "CHR '']'' \<notin> set q"
  shows "json_span (CHR ''['' # body @ CHR '']'' # q) = Some (CHR ''['' # body @ '']'')"
proof -
  have "dropWhile (\<lambda>y. y \<noteq> CHR '']'') (rev q @ CHR '']'' # rev body) = CHR '']'' # rev body"
    using assms by (auto simp: dropWhile_append)
  then show ?thesis by (simp add: through_last_def)
qed

lemma code_block_none: "split_first ''```'' s = None \<Longrightarrow> code_block s = None"
  by (simp add: code_block_def)

lemma extract_plain:
  assumes "split_first ''```'' (p @ CHR ''['' # body @ '']'' @ q) = None"
    and "CHR ''['' \<notin> set p" and "CHR ''{'' \<notin> set p" and "CHR '']'' \<notin> set q"
  shows "extractJSON (p @ CHR ''['' # body @ '']'' @ q) = CHR ''['' # body @ '']''"
  using assms
  by (simp add: extractJSON_def code_block_none json_span_skip json_span_array TrimSpace_array
      del: json_span.simps)

lemma extract_fenced:
  assumes "split_first ''```'' (CHR ''['' # body @ '']'') = None"
  shows "extractJSON (''```json'' @ [CHR 0x0A] @ (CHR ''['' # body @ '']'') @ [CHR 0x0A] @ ''```'')
           = CHR ''['' # body @ '']''"
proof -
  have "split_first ''```'' ((CHR ''['' # body @ '']'') @ [CHR 0x0A]) = None"
    by (rule no_fence_append [OF assms]) simp_all
  then have "split_first ''```'' (((CHR ''['' # body @ '']'') @ [CHR 0x0A]) @ ''```'' @ [])
               = Some ((CHR ''['' # body @ '']'') @ [CHR 0x0A], [])"
    by (rule split_first_at_fence) simp
  then have inner: "split_first ''```'' (CHR ''['' # body @ '']'' @ [CHR 0x0A] @ ''```'')
               = Some (CHR ''['' # body @ '']'' @ [CHR 0x0A], [])"
    by simp
  have "code_block (''```json'' @ [CHR 0x0A] @ (CHR ''['' # body @ '']'') @ [CHR 0x0A] @ ''```'')
          = Some (CHR ''['' # body @ '']'' @ [CHR 0x0A])"
    using inner by (simp add: code_block_def is_s_def)
  then show ?thesis
    by (simp add: extractJSON_def TrimSpace_array_newline)
qed

text \<open>
  C7, as amended. Let \<open>A\<close> be an array text, from its opening to its closing bracket,
  that holds no code fence. Then \<^verbatim>\<open>extractJSON\<close> returns exactly \<open>A\<close>, and so a text that
  decodes as \<open>A\<close> does, on each of: \<open>A\<close> itself; \<open>A\<close> inside a \<^verbatim>\<open>```json\<close> block; and \<open>A\<close>
  between two pieces of prose that hold no code fence, of which the leading one holds
  no opening bracket or brace and the trailing one no closing bracket.
\<close>

theorem extractJSON_three_forms:
  assumes "A = CHR ''['' # body @ '']''"
    and "split_first ''```'' A = None"
    and "split_first ''```'' p = None" and "split_first ''```'' q = None"
    and "CHR ''['' \<notin> set p" and "CHR ''{'' \<notin> set p" and "CHR '']'' \<notin> set q"
  shows "extractJSON A = A
         \<and> extractJSON (''```json'' @ [CHR 0x0A] @ A @ [CHR 0x0A] @ ''```'') = A
         \<and> extractJSON (p @ A @ q) = A
         \<and> unmarshal_issues w (extractJSON (''```json'' @ [CHR 0x0A] @ A @ [CHR 0x0A] @ ''```''))
             = unmarshal_issues w (extractJSON A)
         \<and> unmarshal_issues w (extractJSON (p @ A @ q)) = unmarshal_issues w (extractJSON A)"
proof -
  have plain: "extractJSON A = A"
    using extract_plain [of "[]" body "[]"] assms(1,2) by simp
  have fenced: "extractJSON (''```json'' @ [CHR 0x0A] @ A @ [CHR 0x0A] @ ''```'') = A"
    using extract_fenced [of body] assms(1,2) by simp
  have "split_first ''```'' (p @ A) = None"
    by (rule no_fence_append [OF assms(3) assms(2)]) (simp add: assms(1))
  then have "split_first ''```'' ((p @ A) @ q) = None"
    by (rule no_fence_append [OF _ assms(4)]) (simp add: assms(1))
  then have "split_first ''```'' (p @ CHR ''['' # body @ '']'' @ q) = None"
    by (simp add: assms(1))
  from extract_plain [OF this assms(5) assms(6) assms(7)]
  have prose: "extractJSON (p @ A @ q) = A"
    by (simp add: assms(1))
  from plain fenced prose show ?thesis by simp
qed

theorem extractJSON_three_forms_witness:
  "''[1, 2]'' = CHR ''['' # ''1, 2'' @ '']''
   \<and> split_first ''```'' ''[1, 2]'' = None
   \<and> split_first ''```'' ''Here are the findings: '' = None
   \<and> split_first ''```'' '' (end of {report})'' = None
   \<and> CHR ''['' \<notin> set ''Here are the findings: ''
   \<and> CHR ''{'' \<notin> set ''Here are the findings: ''
   \<and> CHR '']'' \<notin> set '' (end of {report})''
   \<and> extractJSON ''[1, 2]'' = ''[1, 2]''
   \<and> extractJSON (''```json'' @ [CHR 0x0A] @ ''[1, 2]'' @ [CHR 0x0A] @ ''```'') = ''[1, 2]''
   \<and> extractJSON (''Here are the findings: '' @ ''[1, 2]'' @ '' (end of {report})'') = ''[1, 2]''"
proof -
  have a: "''[1, 2]'' = CHR ''['' # ''1, 2'' @ '']''" by simp
  have b: "split_first ''```'' ''[1, 2]'' = None" by simp
  have c: "split_first ''```'' ''Here are the findings: '' = None" by simp
  have d: "split_first ''```'' '' (end of {report})'' = None" by simp
  have e: "CHR ''['' \<notin> set ''Here are the findings: ''" by simp
  have f: "CHR ''{'' \<notin> set ''Here are the findings: ''" by simp
  have g: "CHR '']'' \<notin> set '' (end of {report})''" by simp
  from extractJSON_three_forms [OF a b c d e f g] a b c d e f g show ?thesis by blast
qed

text \<open>
  The claim as stated fails twice. An array that holds a fenced snippet inside a string
  is cut at the fences, both bare and inside a \<^verbatim>\<open>```json\<close> block; and prose after the array
  that holds a closing bracket is swallowed up to that bracket. None of the three
  returned texts is JSON.
\<close>

theorem extractJSON_cut_by_fence_or_bracket:
  "extractJSON (''['' @ quoted ''```x```'' @ '']'') = ''x''
   \<and> extractJSON (''```json'' @ [CHR 0x0A] @ (''['' @ quoted ''```x```'' @ '']'') @ [CHR 0x0A] @ ''```'')
       = ''['' @ [CHR 0x22]
   \<and> extractJSON (''Result: '' @ ''[]'' @ '' (see [1])'') = ''[] (see [1]''"
  by (simp add: extract_defs)

end
